theory Spec2Isabelle
  imports Complex_Main
begin

section \<open>The request handlers of gradio\_demo.py\<close>

text \<open>
  The file wires two request handlers, \<open>video_to_audio\<close> and \<open>text_to_audio\<close>, to a
  pretrained model. Everything the handlers call lives outside the file: the video
  decoder, the sequence-length properties, the generation procedure, the writers, the
  random generator, the clock and the file system. The handlers are embedded as
  functions of a record of these collaborators and of an explicit world; each
  theorem below holds for every behaviour of the collaborators that has the
  interface the call sites show.

  A Python exception is the \<open>Inl\<close> of a sum. Mutations made before an exception stay
  in the world, as they do in Python, so a handler returns its result together with
  the world it leaves behind.
\<close>

subsection \<open>Data\<close>

text \<open>A \<open>pathlib.Path\<close>, as the list of its components.\<close>

type_synonym path = "string list"

text \<open>
  An exception raised by a collaborator, by its text, and the \<open>IndexError\<close> that
  indexing an empty batch with \<open>[0]\<close> raises (lines 93 and 127).
\<close>

datatype error = Raised string | IndexError

text \<open>What \<open>datetime.now()\<close> returns, down to the second.\<close>

record datetime =
  year :: nat
  month :: nat
  day :: nat
  hour :: nat
  minute :: nat
  second :: nat

text \<open>
  The attributes of the value \<open>load_video\<close> returns that the handler reads
  (lines 75--77). \<open>'t\<close> is the type of tensors, \<open>'f\<close> that of Python floats; the
  handlers pass both through without arithmetic.
\<close>

record ('t, 'f) video_info =
  clip_frames :: 't
  sync_frames :: 't
  duration_sec :: 'f

text \<open>
  \<open>SequenceConfig\<close>: the attribute the handlers write (\<open>duration\<close>) and the one they
  read (\<open>sampling_rate\<close>). Its properties \<open>latent_seq_len\<close>, \<open>clip_seq_len\<close> and
  \<open>sync_seq_len\<close> are collaborators, below.
\<close>

record 'f sequence_config =
  duration :: 'f
  sampling_rate :: int

text \<open>
  The network: its weights (\<open>'m\<close> is the type of a loaded module's parameters) and
  the three sequence lengths that \<open>update_seq_lengths\<close> pushes into it.
\<close>

record 'm MMAudio =
  weights :: 'm
  latent_len :: int
  clip_len :: int
  sync_len :: int

text \<open>
  Modelled from the spec: \<open>MMAudio.update_seq_lengths\<close> is not in this file. The
  spec's sequence configurator writes the latent, clip and sync sequence lengths into
  the shared model runtime state; nothing else of the network is touched.
\<close>

definition update_seq_lengths :: "'m MMAudio \<Rightarrow> int \<Rightarrow> int \<Rightarrow> int \<Rightarrow> 'm MMAudio" where
  "update_seq_lengths n l cl sl = n\<lparr>latent_len := l, clip_len := cl, sync_len := sl\<rparr>"

text \<open>The keyword arguments of \<open>FlowMatching(...)\<close> (lines 72 and 111).\<close>

record flow_matching =
  min_sigma :: int
  inference_mode :: string
  num_steps :: int

text \<open>
  The attributes of the module-level \<open>model\<close> (a \<open>ModelConfig\<close>) that \<open>get_model\<close>
  reads (lines 46--55). Its \<open>seq_cfg\<close> attribute is the very object the global
  \<open>seq_cfg\<close> names (line 44), so it is the world's one \<open>seq_cfg\<close> cell and not a
  second copy here.
\<close>

record model_config =
  model_name :: string
  model_path :: string
  vae_path :: string
  synchformer_ckpt :: string
  mode :: string
  bigvgan_16k_path :: string

text \<open>
  The trace: one event for every call a handler makes to a collaborator, with the
  arguments of the call, one for the assignment \<open>seq_cfg.duration = duration\<close>, and
  one for an exception. \<open>'r\<close> is the type of a \<open>torch.Generator\<close>. The event of a
  call of \<open>generate\<close> holds its nine arguments and, last, the shared sequence
  configuration as the call finds it: it is no argument of the call, and is recorded
  to say what is in force while \<open>generate\<close> runs.
\<close>

datatype ('t, 'f, 'm, 'r) event =
    EvManualSeed int
  | EvSeed
  | EvLoadVideo string 'f
  | EvSetDuration 'f
  | EvUpdateSeqLengths int int int
  | EvGenerate "'t list option" "'t list option" "string list" "string list"
      'm "'m MMAudio" flow_matching 'r 'f "'f sequence_config"
  | EvLogInfo
  | EvNow datetime
  | EvMkdir path bool bool
  | EvMakeVideo "('t, 'f) video_info" path 't int
  | EvSave path "'t list" int
  | EvRaise error

text \<open>
  The world: the module-level globals the handlers use (lines 37, 39 and 61), the
  state outside the process (\<open>'x\<close>: file system, entropy pool, clock) and the trace.
\<close>

record ('t, 'f, 'm, 'r, 'x) world =
  model :: model_config
  net :: "'m MMAudio"
  feature_utils :: 'm
  seq_cfg :: "'f sequence_config"
  output_dir :: path
  ext :: 'x
  trace :: "('t, 'f, 'm, 'r) event list"

text \<open>
  The collaborators, with the interface of their call sites.
  \<^item> \<open>Generator\<close> is \<open>torch.Generator(device=device)\<close>, \<open>manual_seed\<close> and \<open>rng_seed\<close> its
    methods \<open>manual_seed(seed)\<close> and \<open>seed()\<close>. The former may fail: the handlers pass it
    every seed that is not negative, and the seed field of the interface (lines 149
    and 164) has a minimum and no maximum. The latter draws from the entropy of the
    outside state.
  \<^item> \<open>load_video\<close> reads the outside state and may fail.
  \<^item> \<open>to_device\<close> is \<open>.to(device, dtype)\<close> and \<open>float_cpu\<close> is \<open>.float().cpu()\<close>; a
    batch dimension is a list, so \<open>unsqueeze(0)\<close> is a singleton list and \<open>[0]\<close> its
    first element.
  \<^item> \<open>generate\<close> is a function of its arguments: the only randomness it has is the
    generator it is handed. It may fail.
  \<^item> \<open>now\<close> reads the clock; \<open>mkdir\<close>, \<open>make_video\<close> and \<open>torchaudio_save\<close> change
    the outside state and may fail.
\<close>

record ('t, 'f, 'm, 'r, 'x) collab =
  Generator :: 'r
  manual_seed :: "'r \<Rightarrow> int \<Rightarrow> error + 'r"
  rng_seed :: "'r \<Rightarrow> 'x \<Rightarrow> 'r \<times> 'x"
  load_video :: "'x \<Rightarrow> string \<Rightarrow> 'f \<Rightarrow> error + ('t, 'f) video_info"
  to_device :: "'t \<Rightarrow> 't"
  latent_seq_len :: "'f sequence_config \<Rightarrow> int"
  clip_seq_len :: "'f sequence_config \<Rightarrow> int"
  sync_seq_len :: "'f sequence_config \<Rightarrow> int"
  generate :: "'t list option \<Rightarrow> 't list option \<Rightarrow> string list \<Rightarrow> string list \<Rightarrow>
      'm \<Rightarrow> 'm MMAudio \<Rightarrow> flow_matching \<Rightarrow> 'r \<Rightarrow> 'f \<Rightarrow> error + 't list"
  float_cpu :: "'t \<Rightarrow> 't"
  now :: "'x \<Rightarrow> datetime \<times> 'x"
  mkdir :: "'x \<Rightarrow> path \<Rightarrow> bool \<Rightarrow> bool \<Rightarrow> error + 'x"
  make_video :: "'x \<Rightarrow> ('t, 'f) video_info \<Rightarrow> path \<Rightarrow> 't \<Rightarrow> int \<Rightarrow> error + 'x"
  torchaudio_save :: "'x \<Rightarrow> path \<Rightarrow> 't list \<Rightarrow> int \<Rightarrow> error + 'x"

subsection \<open>The timestamp\<close>

text \<open>
  \<open>strftime('%Y%m%d_%H%M%S')\<close>: the year zero-padded to four digits, the other
  fields to two, with an underscore between date and time.
\<close>

definition digit_char :: "nat \<Rightarrow> char" where
  "digit_char n = ''0123456789'' ! n"


fun str_nat :: "nat \<Rightarrow> string" where
  "str_nat n = (if n < 10 then [digit_char n] else str_nat (n div 10) @ [digit_char (n mod 10)])"

declare str_nat.simps [simp del]

definition zfill :: "nat \<Rightarrow> string \<Rightarrow> string" where
  "zfill k s = replicate (k - length s) (CHR ''0'') @ s"

definition strftime_Ymd_HMS :: "datetime \<Rightarrow> string" where
  "strftime_Ymd_HMS t =
     zfill 4 (str_nat (year t)) @ zfill 2 (str_nat (month t)) @ zfill 2 (str_nat (day t))
     @ ''_'' @
     zfill 2 (str_nat (hour t)) @ zfill 2 (str_nat (minute t)) @ zfill 2 (str_nat (second t))"



subsection \<open>The handlers\<close>

definition emit ::
  "('t, 'f, 'm, 'r) event \<Rightarrow> ('t, 'f, 'm, 'r, 'x) world \<Rightarrow> ('t, 'f, 'm, 'r, 'x) world" where
  "emit e w = w\<lparr>trace := trace w @ [e]\<rparr>"

text \<open>
  Lines 67--71 and 106--110, the same in both handlers: a new generator for this
  request, seeded with \<open>seed\<close> when it is not negative and from entropy otherwise. An
  exception of \<open>manual_seed\<close> ends the request there.
\<close>

definition request_rng ::
  "('t, 'f, 'm, 'r, 'x) collab \<Rightarrow> ('t, 'f, 'm, 'r, 'x) world \<Rightarrow> int
     \<Rightarrow> (error + 'r) \<times> ('t, 'f, 'm, 'r, 'x) world" where
  "request_rng c w seed =
     (let rng = Generator c in
      if 0 \<le> seed then
        (let w1 = emit (EvManualSeed seed) w
         in (case manual_seed c rng seed of
               Inl e \<Rightarrow> (Inl e, emit (EvRaise e) w1)
             | Inr rng' \<Rightarrow> (Inr rng', w1)))
      else (case rng_seed c rng (ext w) of
              (rng', x') \<Rightarrow> (Inr rng', emit EvSeed (w\<lparr>ext := x'\<rparr>))))"

text \<open>
  Lines 80--81 and 114--115, the same in both handlers: the resolved duration is
  written into the shared sequence configuration, and the three lengths read from it
  afterwards are pushed into the network.
\<close>

definition configure ::
  "('t, 'f, 'm, 'r, 'x) collab \<Rightarrow> ('t, 'f, 'm, 'r, 'x) world \<Rightarrow> 'f
     \<Rightarrow> ('t, 'f, 'm, 'r, 'x) world" where
  "configure c w d =
     (let w1 = emit (EvSetDuration d) (w\<lparr>seq_cfg := (seq_cfg w)\<lparr>duration := d\<rparr>\<rparr>);
          l = latent_seq_len c (seq_cfg w1);
          cl = clip_seq_len c (seq_cfg w1);
          sl = sync_seq_len c (seq_cfg w1)
      in emit (EvUpdateSeqLengths l cl sl) (w1\<lparr>net := update_seq_lengths (net w1) l cl sl\<rparr>))"

text \<open>
  Lines 83--93 and 117--127, the same in both handlers but for the frames: the call
  of \<open>generate\<close>, the log line with the elapsed time (the event \<open>EvLogInfo\<close>) and
  \<open>audios.float().cpu()[0]\<close>.
\<close>

definition run_generate ::
  "('t, 'f, 'm, 'r, 'x) collab \<Rightarrow> ('t, 'f, 'm, 'r, 'x) world
     \<Rightarrow> 't list option \<Rightarrow> 't list option \<Rightarrow> string \<Rightarrow> string \<Rightarrow> flow_matching \<Rightarrow> 'r \<Rightarrow> 'f
     \<Rightarrow> (error + 't) \<times> ('t, 'f, 'm, 'r, 'x) world" where
  "run_generate c w clip sync prompt negative_prompt fm rng cfg_strength =
     (let w1 = emit (EvGenerate clip sync [prompt] [negative_prompt]
                       (feature_utils w) (net w) fm rng cfg_strength (seq_cfg w)) w
      in (case generate c clip sync [prompt] [negative_prompt]
                 (feature_utils w) (net w) fm rng cfg_strength of
            Inl e \<Rightarrow> (Inl e, emit (EvRaise e) w1)
          | Inr audios \<Rightarrow>
             (let w2 = emit EvLogInfo w1
              in (case map (float_cpu c) audios of
                    [] \<Rightarrow> (Inl IndexError, emit (EvRaise IndexError) w2)
                  | audio # _ \<Rightarrow> (Inr audio, w2)))))"

text \<open>
  Lines 95--96 and 129--130, the same in both handlers: the timestamp of the clock
  and \<open>output_dir.mkdir(exist_ok=True, parents=True)\<close>. The arguments of \<open>mkdir\<close> are
  the path, \<open>exist_ok\<close> and \<open>parents\<close>.
\<close>

definition timestamp_and_mkdir ::
  "('t, 'f, 'm, 'r, 'x) collab \<Rightarrow> ('t, 'f, 'm, 'r, 'x) world
     \<Rightarrow> (error + string) \<times> ('t, 'f, 'm, 'r, 'x) world" where
  "timestamp_and_mkdir c w =
     (case now c (ext w) of (t, x) \<Rightarrow>
      (let current_time_string = strftime_Ymd_HMS t;
           w1 = emit (EvNow t) (w\<lparr>ext := x\<rparr>);
           w2 = emit (EvMkdir (output_dir w1) True True) w1
       in (case mkdir c (ext w2) (output_dir w2) True True of
             Inl e \<Rightarrow> (Inl e, emit (EvRaise e) w2)
           | Inr x' \<Rightarrow> (Inr current_time_string, w2\<lparr>ext := x'\<rparr>))))"

text \<open>
  Lines 64--99. The parameters \<open>num_steps\<close> and \<open>duration\<close> are written \<open>num_steps'\<close> and
  \<open>duration'\<close>, and the locals of lines 78--79 \<open>clip\<close> and \<open>sync\<close>, since the bare names are
  the record fields.
\<close>

definition video_to_audio ::
  "('t, 'f, 'm, 'r, 'x) collab \<Rightarrow> ('t, 'f, 'm, 'r, 'x) world
     \<Rightarrow> string \<Rightarrow> string \<Rightarrow> string \<Rightarrow> int \<Rightarrow> int \<Rightarrow> 'f \<Rightarrow> 'f
     \<Rightarrow> (error + path) \<times> ('t, 'f, 'm, 'r, 'x) world" where
  "video_to_audio c w video prompt negative_prompt seed num_steps' cfg_strength duration' =
     (case request_rng c w seed of
        (Inl e, w1) \<Rightarrow> (Inl e, w1)
      | (Inr rng, w1) \<Rightarrow>
      (let fm = \<lparr>min_sigma = 0, inference_mode = ''euler'', num_steps = num_steps'\<rparr>;
           w2 = emit (EvLoadVideo video duration') w1
       in (case load_video c (ext w2) video duration' of
             Inl e \<Rightarrow> (Inl e, emit (EvRaise e) w2)
           | Inr video_info \<Rightarrow>
              (let clip = [to_device c (clip_frames video_info)];
                   sync = [to_device c (sync_frames video_info)];
                   d = duration_sec video_info;
                   w3 = configure c w2 d
               in (case run_generate c w3 (Some clip) (Some sync) prompt negative_prompt
                          fm rng cfg_strength of
                     (Inl e, w4) \<Rightarrow> (Inl e, w4)
                   | (Inr audio, w4) \<Rightarrow>
                      (case timestamp_and_mkdir c w4 of
                         (Inl e, w5) \<Rightarrow> (Inl e, w5)
                       | (Inr current_time_string, w5) \<Rightarrow>
                          (let video_save_path =
                                 output_dir w5 @ [current_time_string @ ''.mp4''];
                               w6 = emit (EvMakeVideo video_info video_save_path audio
                                            (sampling_rate (seq_cfg w5))) w5
                           in (case make_video c (ext w6) video_info video_save_path audio
                                      (sampling_rate (seq_cfg w6)) of
                                 Inl e \<Rightarrow> (Inl e, emit (EvRaise e) w6)
                               | Inr x \<Rightarrow> (Inr video_save_path, w6\<lparr>ext := x\<rparr>)))))))))"

text \<open>Lines 103--133; \<open>audio.unsqueeze(0)\<close> is the singleton list \<open>[audio]\<close>.\<close>

definition text_to_audio ::
  "('t, 'f, 'm, 'r, 'x) collab \<Rightarrow> ('t, 'f, 'm, 'r, 'x) world
     \<Rightarrow> string \<Rightarrow> string \<Rightarrow> int \<Rightarrow> int \<Rightarrow> 'f \<Rightarrow> 'f
     \<Rightarrow> (error + path) \<times> ('t, 'f, 'm, 'r, 'x) world" where
  "text_to_audio c w prompt negative_prompt seed num_steps' cfg_strength duration' =
     (case request_rng c w seed of
        (Inl e, w1) \<Rightarrow> (Inl e, w1)
      | (Inr rng, w1) \<Rightarrow>
      (let fm = \<lparr>min_sigma = 0, inference_mode = ''euler'', num_steps = num_steps'\<rparr>;
           clip = None;
           sync = None;
           w3 = configure c w1 duration'
       in (case run_generate c w3 clip sync prompt negative_prompt fm rng cfg_strength of
             (Inl e, w4) \<Rightarrow> (Inl e, w4)
           | (Inr audio, w4) \<Rightarrow>
              (case timestamp_and_mkdir c w4 of
                 (Inl e, w5) \<Rightarrow> (Inl e, w5)
               | (Inr current_time_string, w5) \<Rightarrow>
                  (let audio_save_path = output_dir w5 @ [current_time_string @ ''.flac''];
                       w6 = emit (EvSave audio_save_path [audio]
                                    (sampling_rate (seq_cfg w5))) w5
                   in (case torchaudio_save c (ext w6) audio_save_path [audio]
                              (sampling_rate (seq_cfg w6)) of
                         Inl e \<Rightarrow> (Inl e, emit (EvRaise e) w6)
                       | Inr x \<Rightarrow> (Inr audio_save_path, w6\<lparr>ext := x\<rparr>)))))))"

text \<open>The events a call added to the trace: those of \<open>w'\<close> past the ones of \<open>w\<close>.\<close>

definition events_since ::
  "('t, 'f, 'm, 'r, 'x) world \<Rightarrow> ('t, 'f, 'm, 'r, 'x) world \<Rightarrow> ('t, 'f, 'm, 'r) event list" where
  "events_since w w' = drop (length (trace w)) (trace w')"

text \<open>
  What lines 67--71 (and 106--110) come to, in terms of the collaborators alone: the
  generator they leave in \<open>rng\<close>, or the exception of \<open>manual_seed\<close>; and the outside
  state after them, which only \<open>seed()\<close> touches.
\<close>

definition seeded_rng ::
  "('t, 'f, 'm, 'r, 'x) collab \<Rightarrow> ('t, 'f, 'm, 'r, 'x) world \<Rightarrow> int \<Rightarrow> error + 'r" where
  "seeded_rng c w seed =
     (if 0 \<le> seed then manual_seed c (Generator c) seed
      else Inr (fst (rng_seed c (Generator c) (ext w))))"

definition seeded_ext ::
  "('t, 'f, 'm, 'r, 'x) collab \<Rightarrow> ('t, 'f, 'm, 'r, 'x) world \<Rightarrow> int \<Rightarrow> 'x" where
  "seeded_ext c w seed =
     (if 0 \<le> seed then ext w else snd (rng_seed c (Generator c) (ext w)))"

subsection \<open>Reading a trace\<close>

fun is_load_video :: "('t, 'f, 'm, 'r) event \<Rightarrow> bool" where
  "is_load_video (EvLoadVideo _ _) = True"
| "is_load_video _ = False"

fun is_generate :: "('t, 'f, 'm, 'r) event \<Rightarrow> bool" where
  "is_generate (EvGenerate _ _ _ _ _ _ _ _ _ _) = True"
| "is_generate _ = False"



text \<open>The calls that change the file system: \<open>mkdir\<close> and the two writers.\<close>

fun is_write :: "('t, 'f, 'm, 'r) event \<Rightarrow> bool" where
  "is_write (EvMakeVideo _ _ _ _) = True"
| "is_write (EvSave _ _ _) = True"
| "is_write _ = False"

fun is_fs :: "('t, 'f, 'm, 'r) event \<Rightarrow> bool" where
  "is_fs (EvMkdir _ _ _) = True"
| "is_fs e = is_write e"

text \<open>The exceptions of a trace, in order.\<close>

fun raised :: "('t, 'f, 'm, 'r) event list \<Rightarrow> error list" where
  "raised [] = []"
| "raised (EvRaise e # es) = e # raised es"
| "raised (_ # es) = raised es"

text \<open>The waveforms handed to a writer, in order.\<close>

fun written_audio :: "('t, 'f, 'm, 'r) event list \<Rightarrow> 't list" where
  "written_audio [] = []"
| "written_audio (EvMakeVideo _ _ audio _ # es) = audio # written_audio es"
| "written_audio (EvSave _ audios _ # es) = audios @ written_audio es"
| "written_audio (_ # es) = written_audio es"

text \<open>The frame arguments of the calls of \<open>generate\<close>, in order.\<close>

fun generate_frames ::
  "('t, 'f, 'm, 'r) event list \<Rightarrow> ('t list option \<times> 't list option) list" where
  "generate_frames [] = []"
| "generate_frames (EvGenerate cf sf _ _ _ _ _ _ _ _ # es) = (cf, sf) # generate_frames es"
| "generate_frames (_ # es) = generate_frames es"

text \<open>The generators handed to \<open>generate\<close>, in order.\<close>

fun generate_rngs :: "('t, 'f, 'm, 'r) event list \<Rightarrow> 'r list" where
  "generate_rngs [] = []"
| "generate_rngs (EvGenerate _ _ _ _ _ _ _ rng _ _ # es) = rng # generate_rngs es"
| "generate_rngs (_ # es) = generate_rngs es"

text \<open>
  The results of the calls of \<open>generate\<close> in a trace: each call is replayed on its
  recorded arguments, which decide its result.
\<close>

fun generate_results ::
  "('t, 'f, 'm, 'r, 'x) collab \<Rightarrow> ('t, 'f, 'm, 'r) event list \<Rightarrow> (error + 't list) list" where
  "generate_results c [] = []"
| "generate_results c (EvGenerate cf sf txt neg fu n fm rng g _ # es) =
     generate c cf sf txt neg fu n fm rng g # generate_results c es"
| "generate_results c (_ # es) = generate_results c es"

text \<open>A result of \<open>generate\<close> that is an error or a batch of one waveform.\<close>

fun one_waveform :: "error + 't list \<Rightarrow> bool" where
  "one_waveform (Inl _) = True"
| "one_waveform (Inr audios) = (length audios = 1)"

text \<open>
  The steps of a trace that concern the sequence configuration: the assignment of
  the duration, the lengths pushed into the network, and, for a call of \<open>generate\<close>,
  the duration the shared configuration holds when it is called and the lengths of
  the network it receives.
\<close>

datatype 'f seq_step =
    SetDuration 'f
  | PushLengths int int int
  | GenerateWith 'f int int int

fun seq_steps :: "('t, 'f, 'm, 'r) event list \<Rightarrow> 'f seq_step list" where
  "seq_steps [] = []"
| "seq_steps (EvSetDuration d # es) = SetDuration d # seq_steps es"
| "seq_steps (EvUpdateSeqLengths l cl sl # es) = PushLengths l cl sl # seq_steps es"
| "seq_steps (EvGenerate _ _ _ _ _ n _ _ _ cfg # es) =
     GenerateWith (duration cfg) (latent_len n) (clip_len n) (sync_len n) # seq_steps es"
| "seq_steps (_ # es) = seq_steps es"

text \<open>The value line 39 gives \<open>output_dir\<close>: \<open>Path('./output/gradio')\<close>.\<close>

definition output_dir_init :: path where
  "output_dir_init = [''output'', ''gradio'']"

text \<open>
  Two worlds hold the same loaded model when the weights of the network, the feature
  extractor and the sequence configuration apart from its duration agree.
\<close>

definition same_model ::
  "('t, 'f, 'm, 'r, 'x) world \<Rightarrow> ('t, 'f, 'm, 'r, 'x) world \<Rightarrow> bool" where
  "same_model w1 w2 =
     (weights (net w1) = weights (net w2) \<and> feature_utils w1 = feature_utils w2
      \<and> sampling_rate (seq_cfg w1) = sampling_rate (seq_cfg w2))"

text \<open>
  Modelled from the spec: \<open>generate\<close> is not in this file. Its contract in the spec
  gives its output as a batch, one waveform for each prompt of the batch it is handed.
\<close>

definition one_waveform_per_prompt :: "('t, 'f, 'm, 'r, 'x) collab \<Rightarrow> bool" where
  "one_waveform_per_prompt c =
     (\<forall>cf sf txt neg fu n fm rng g audios.
        generate c cf sf txt neg fu n fm rng g = Inr audios \<longrightarrow> length audios = length txt)"

subsection \<open>A concrete set of collaborators\<close>

text \<open>
  An outside state to run the handlers in: how often the entropy pool was drawn from,
  the directories and the files there are, and whether the file system can be
  written to.
\<close>

record outside =
  draws :: nat
  dirs :: "path list"
  files :: "path list"
  read_only :: bool

text \<open>
  Collaborators to run the handlers on. A tensor is a number. \<open>manual_seed\<close> takes a
  seed below \<open>2 ^ 64\<close> and raises on a larger one, as the generator of torch does;
  \<open>seed()\<close> draws a number that the next draw does not give again. The decoder knows
  one video of three seconds and clips the requested duration to it. \<open>generate\<close> fails
  on the prompt \<open>oom\<close> and otherwise returns one waveform for each prompt, made from the
  generator and the latent length. \<open>mkdir\<close> leaves a directory that is there alone when
  \<open>exist_ok\<close> is set, and needs a file system that can be written to for one that is
  not there; so do the two writers.
\<close>

definition demo_time :: datetime where
  "demo_time = \<lparr>year = 2026, month = 11, day = 4, hour = 7, minute = 5, second = 9\<rparr>"

definition demo_collab :: "(int, real, nat, int, outside) collab" where
  "demo_collab =
     \<lparr>Generator = 0,
      manual_seed = (\<lambda>rng seed.
        if seed < 2 ^ 64 then Inr seed else Inl (Raised ''RuntimeError'')),
      rng_seed = (\<lambda>rng x. (1000 + int (draws x), x\<lparr>draws := Suc (draws x)\<rparr>)),
      load_video = (\<lambda>x video d.
        if video = ''clip.mp4''
        then Inr \<lparr>clip_frames = 1, sync_frames = 2, duration_sec = min d 3\<rparr>
        else Inl (Raised ''DecodeError'')),
      to_device = (\<lambda>t. t),
      latent_seq_len = (\<lambda>cfg. \<lfloor>duration cfg\<rfloor> * 43),
      clip_seq_len = (\<lambda>cfg. \<lfloor>duration cfg\<rfloor> * 8),
      sync_seq_len = (\<lambda>cfg. \<lfloor>duration cfg\<rfloor> * 24),
      generate = (\<lambda>cf sf txt neg fu n fm rng g.
        if txt = [''oom''] then Inl (Raised ''OutOfMemory'')
        else Inr (map (\<lambda>_. rng + latent_len n) txt)),
      float_cpu = (\<lambda>t. t),
      now = (\<lambda>x. (demo_time, x)),
      mkdir = (\<lambda>x p exist_ok parents.
        if p \<in> set (dirs x)
        then (if exist_ok then Inr x else Inl (Raised ''FileExistsError''))
        else if read_only x then Inl (Raised ''PermissionError'')
        else Inr (x\<lparr>dirs := p # dirs x\<rparr>)),
      make_video = (\<lambda>x vi p audio rate.
        if read_only x then Inl (Raised ''PermissionError'')
        else Inr (x\<lparr>files := p # files x\<rparr>)),
      torchaudio_save = (\<lambda>x p audios rate.
        if read_only x then Inl (Raised ''PermissionError'')
        else Inr (x\<lparr>files := p # files x\<rparr>))\<rparr>"

definition demo_world :: "(int, real, nat, int, outside) world" where
  "demo_world =
     \<lparr>model = \<lparr>model_name = ''large_44k_v2'', model_path = ''weights'', vae_path = ''vae'',
               synchformer_ckpt = ''synchformer'', mode = ''44k'', bigvgan_16k_path = ''bigvgan''\<rparr>,
      net = \<lparr>weights = 7, latent_len = 0, clip_len = 0, sync_len = 0\<rparr>,
      feature_utils = 9,
      seq_cfg = \<lparr>duration = 8, sampling_rate = 44100\<rparr>,
      output_dir = output_dir_init,
      ext = \<lparr>draws = 0, dirs = [], files = [], read_only = False\<rparr>,
      trace = []\<rparr>"

text \<open>
  The same world on a file system that cannot be written to, without the output
  directory and with it.
\<close>

definition demo_world_locked :: "(int, real, nat, int, outside) world" where
  "demo_world_locked =
     demo_world\<lparr>ext := \<lparr>draws = 0, dirs = [], files = [], read_only = True\<rparr>\<rparr>"

definition demo_world_locked_dir :: "(int, real, nat, int, outside) world" where
  "demo_world_locked_dir =
     demo_world\<lparr>ext := \<lparr>draws = 0, dirs = [output_dir_init], files = [], read_only = True\<rparr>\<rparr>"

text \<open>
  The worlds that the text request of the demonstration leaves behind, seeded with 42
  and seeded from entropy.
\<close>

definition demo_world_seeded_after :: "(int, real, nat, int, outside) world" where
  "demo_world_seeded_after =
     snd (text_to_audio demo_collab demo_world ''rain'' ''music'' 42 25 4.5 8)"


subsection \<open>The timestamp has its shape\<close>










lemma demo_timestamp: "strftime_Ymd_HMS demo_time = ''20261104_070509''"
  by code_simp


subsection \<open>How the handlers treat the world\<close>

lemma emit_fields [simp]:
  "model (emit e w) = model w"
  "net (emit e w) = net w"
  "feature_utils (emit e w) = feature_utils w"
  "seq_cfg (emit e w) = seq_cfg w"
  "output_dir (emit e w) = output_dir w"
  "ext (emit e w) = ext w"
  "trace (emit e w) = trace w @ [e]"
  by (simp_all add: emit_def)

lemma request_rng_fields [simp]:
  "model (snd (request_rng c w seed)) = model w"
  "net (snd (request_rng c w seed)) = net w"
  "feature_utils (snd (request_rng c w seed)) = feature_utils w"
  "seq_cfg (snd (request_rng c w seed)) = seq_cfg w"
  "output_dir (snd (request_rng c w seed)) = output_dir w"
  by (simp_all add: request_rng_def Let_def case_prod_beta split: sum.split)

lemma request_rng_fst [simp]: "fst (request_rng c w seed) = seeded_rng c w seed"
  by (simp add: request_rng_def seeded_rng_def Let_def case_prod_beta split: sum.split)

lemma request_rng_ext [simp]: "ext (snd (request_rng c w seed)) = seeded_ext c w seed"
  by (simp add: request_rng_def seeded_ext_def Let_def case_prod_beta split: sum.split)

lemma request_rng_trace [simp]:
  "trace (snd (request_rng c w seed)) =
     trace w @ (if 0 \<le> seed then EvManualSeed seed else EvSeed) #
       (case seeded_rng c w seed of Inl e \<Rightarrow> [EvRaise e] | Inr _ \<Rightarrow> [])"
  by (simp add: request_rng_def seeded_rng_def Let_def case_prod_beta split: sum.split)

lemma seeded_rng_failed: "seeded_rng c w seed = Inl e \<Longrightarrow> 0 \<le> seed"
  by (simp add: seeded_rng_def split: if_splits)

lemma seeded_ext_failed: "seeded_rng c w seed = Inl e \<Longrightarrow> seeded_ext c w seed = ext w"
  by (simp add: seeded_rng_def seeded_ext_def split: if_splits)

lemma events_since_append: "trace w' = trace w @ evs \<Longrightarrow> events_since w w' = evs"
  by (simp add: events_since_def)

lemma configure_fields [simp]:
  "model (configure c w d) = model w"
  "feature_utils (configure c w d) = feature_utils w"
  "output_dir (configure c w d) = output_dir w"
  "ext (configure c w d) = ext w"
  "seq_cfg (configure c w d) = (seq_cfg w)\<lparr>duration := d\<rparr>"
  "net (configure c w d) =
     update_seq_lengths (net w) (latent_seq_len c ((seq_cfg w)\<lparr>duration := d\<rparr>))
       (clip_seq_len c ((seq_cfg w)\<lparr>duration := d\<rparr>))
       (sync_seq_len c ((seq_cfg w)\<lparr>duration := d\<rparr>))"
  "trace (configure c w d) =
     trace w @ [EvSetDuration d,
       EvUpdateSeqLengths (latent_seq_len c ((seq_cfg w)\<lparr>duration := d\<rparr>))
         (clip_seq_len c ((seq_cfg w)\<lparr>duration := d\<rparr>))
         (sync_seq_len c ((seq_cfg w)\<lparr>duration := d\<rparr>))]"
  by (simp_all add: configure_def Let_def)

lemma run_generate_fields [simp]:
  "model (snd (run_generate c w clip sync p n fm rng g)) = model w"
  "net (snd (run_generate c w clip sync p n fm rng g)) = net w"
  "feature_utils (snd (run_generate c w clip sync p n fm rng g)) = feature_utils w"
  "seq_cfg (snd (run_generate c w clip sync p n fm rng g)) = seq_cfg w"
  "output_dir (snd (run_generate c w clip sync p n fm rng g)) = output_dir w"
  "ext (snd (run_generate c w clip sync p n fm rng g)) = ext w"
  by (simp_all add: run_generate_def Let_def split: sum.splits list.splits)

lemma run_generate_trace [simp]:
  "trace (snd (run_generate c w clip sync p n fm rng g)) =
     trace w @ EvGenerate clip sync [p] [n] (feature_utils w) (net w) fm rng g (seq_cfg w) #
       (case generate c clip sync [p] [n] (feature_utils w) (net w) fm rng g of
          Inl e \<Rightarrow> [EvRaise e]
        | Inr audios \<Rightarrow> EvLogInfo # (case audios of [] \<Rightarrow> [EvRaise IndexError] | _ # _ \<Rightarrow> []))"
  by (simp add: run_generate_def Let_def split: sum.splits list.splits)

lemma run_generate_fst [simp]:
  "fst (run_generate c w clip sync p n fm rng g) =
     (case generate c clip sync [p] [n] (feature_utils w) (net w) fm rng g of
        Inl e \<Rightarrow> Inl e
      | Inr audios \<Rightarrow> (case audios of [] \<Rightarrow> Inl IndexError | a # _ \<Rightarrow> Inr (float_cpu c a)))"
  by (simp add: run_generate_def Let_def split: sum.splits list.splits)

lemma timestamp_and_mkdir_fields [simp]:
  "model (snd (timestamp_and_mkdir c w)) = model w"
  "net (snd (timestamp_and_mkdir c w)) = net w"
  "feature_utils (snd (timestamp_and_mkdir c w)) = feature_utils w"
  "seq_cfg (snd (timestamp_and_mkdir c w)) = seq_cfg w"
  "output_dir (snd (timestamp_and_mkdir c w)) = output_dir w"
  by (simp_all add: timestamp_and_mkdir_def Let_def case_prod_beta split: sum.splits)

lemma timestamp_and_mkdir_trace [simp]:
  "trace (snd (timestamp_and_mkdir c w)) =
     trace w @ EvNow (fst (now c (ext w))) # EvMkdir (output_dir w) True True #
       (case mkdir c (snd (now c (ext w))) (output_dir w) True True of
          Inl e \<Rightarrow> [EvRaise e] | Inr _ \<Rightarrow> [])"
  by (simp add: timestamp_and_mkdir_def Let_def case_prod_beta split: sum.splits)

lemma timestamp_and_mkdir_fst [simp]:
  "fst (timestamp_and_mkdir c w) =
     (case mkdir c (snd (now c (ext w))) (output_dir w) True True of
        Inl e \<Rightarrow> Inl e | Inr _ \<Rightarrow> Inr (strftime_Ymd_HMS (fst (now c (ext w)))))"
  by (simp add: timestamp_and_mkdir_def Let_def case_prod_beta split: sum.splits)

lemma timestamp_and_mkdir_ext:
  "ext (snd (timestamp_and_mkdir c w)) =
     (case mkdir c (snd (now c (ext w))) (output_dir w) True True of
        Inl e \<Rightarrow> snd (now c (ext w)) | Inr x \<Rightarrow> x)"
  by (simp add: timestamp_and_mkdir_def Let_def case_prod_beta split: sum.splits)

subsection \<open>The outcomes of a request\<close>

text \<open>
  Every way a request can end, with what it returns, the events it adds and the
  sequence configuration, the network and the outside state it leaves. The conditions
  are on the collaborators alone, each at the arguments and the outside state of its
  call.
\<close>

lemma text_to_audio_outcomes:
  fixes c :: "('t, 'f, 'm, 'r, 'x) collab" and w :: "('t, 'f, 'm, 'r, 'x) world"
    and prompt negative_prompt :: string and seed num_steps' :: int
    and cfg_strength duration' :: 'f
  defines "r \<equiv> text_to_audio c w prompt negative_prompt seed num_steps' cfg_strength duration'"
  defines "x0 \<equiv> seeded_ext c w seed"
  defines "cfg \<equiv> (seq_cfg w)\<lparr>duration := duration'\<rparr>"
  defines "n \<equiv> update_seq_lengths (net w)
                 (latent_seq_len c cfg) (clip_seq_len c cfg) (sync_seq_len c cfg)"
  defines "fm \<equiv> \<lparr>min_sigma = 0, inference_mode = ''euler'', num_steps = num_steps'\<rparr>"
  defines "pre \<equiv> \<lambda>rng.
                  [if 0 \<le> seed then EvManualSeed seed else EvSeed,
                   EvSetDuration duration',
                   EvUpdateSeqLengths (latent_seq_len c cfg) (clip_seq_len c cfg)
                     (sync_seq_len c cfg),
                   EvGenerate None None [prompt] [negative_prompt] (feature_utils w) n fm rng
                     cfg_strength cfg]"
  defines "gen \<equiv> \<lambda>rng. generate c None None [prompt] [negative_prompt] (feature_utils w) n fm
                    rng cfg_strength"
  defines "t \<equiv> fst (now c x0)"
  defines "x1 \<equiv> snd (now c x0)"
  defines "p \<equiv> output_dir w @ [strftime_Ymd_HMS t @ ''.flac'']"
  defines "rate \<equiv> sampling_rate (seq_cfg w)"
  obtains
    (seed_failed) e where "seeded_rng c w seed = Inl e" "0 \<le> seed" "fst r = Inl e"
      "events_since w (snd r) = [EvManualSeed seed, EvRaise e]"
      "seq_cfg (snd r) = seq_cfg w" "net (snd r) = net w" "ext (snd r) = ext w"
  | (generate_failed) rng e where "seeded_rng c w seed = Inr rng"
      "gen rng = Inl e" "fst r = Inl e"
      "events_since w (snd r) = pre rng @ [EvRaise e]"
      "seq_cfg (snd r) = cfg" "net (snd r) = n" "ext (snd r) = x0"
  | (empty_batch) rng where "seeded_rng c w seed = Inr rng"
      "gen rng = Inr []" "fst r = Inl IndexError"
      "events_since w (snd r) = pre rng @ [EvLogInfo, EvRaise IndexError]"
      "seq_cfg (snd r) = cfg" "net (snd r) = n" "ext (snd r) = x0"
  | (mkdir_failed) rng a as e where "seeded_rng c w seed = Inr rng"
      "gen rng = Inr (a # as)"
      "mkdir c x1 (output_dir w) True True = Inl e" "fst r = Inl e"
      "events_since w (snd r) =
         pre rng @ [EvLogInfo, EvNow t, EvMkdir (output_dir w) True True, EvRaise e]"
      "seq_cfg (snd r) = cfg" "net (snd r) = n" "ext (snd r) = x1"
  | (save_failed) rng a as x2 e where "seeded_rng c w seed = Inr rng"
      "gen rng = Inr (a # as)"
      "mkdir c x1 (output_dir w) True True = Inr x2"
      "torchaudio_save c x2 p [float_cpu c a] rate = Inl e" "fst r = Inl e"
      "events_since w (snd r) =
         pre rng @ [EvLogInfo, EvNow t, EvMkdir (output_dir w) True True,
                    EvSave p [float_cpu c a] rate, EvRaise e]"
      "seq_cfg (snd r) = cfg" "net (snd r) = n" "ext (snd r) = x2"
  | (saved) rng a as x2 x3 where "seeded_rng c w seed = Inr rng"
      "gen rng = Inr (a # as)"
      "mkdir c x1 (output_dir w) True True = Inr x2"
      "torchaudio_save c x2 p [float_cpu c a] rate = Inr x3" "fst r = Inr p"
      "events_since w (snd r) =
         pre rng @ [EvLogInfo, EvNow t, EvMkdir (output_dir w) True True,
                    EvSave p [float_cpu c a] rate]"
      "seq_cfg (snd r) = cfg" "net (snd r) = n" "ext (snd r) = x3"
proof (cases "seeded_rng c w seed")
  case (Inl e)
  note s = this
  from s have "0 \<le> seed" by (rule seeded_rng_failed)
  with s have "0 \<le> seed" "fst r = Inl e"
    "events_since w (snd r) = [EvManualSeed seed, EvRaise e]"
    "seq_cfg (snd r) = seq_cfg w" "net (snd r) = net w" "ext (snd r) = ext w"
    unfolding r_def
    by (simp_all add: text_to_audio_def events_since_def Let_def case_prod_beta
          seeded_ext_failed)
  with s show ?thesis by (rule seed_failed)
next
  case (Inr rng)
  note s = this
  show ?thesis
  proof (cases "gen rng")
    case (Inl e)
    with s have "fst r = Inl e" "events_since w (snd r) = pre rng @ [EvRaise e]"
      "seq_cfg (snd r) = cfg" "net (snd r) = n" "ext (snd r) = x0"
      unfolding r_def gen_def n_def cfg_def pre_def fm_def x0_def
      by (simp_all add: text_to_audio_def events_since_def Let_def case_prod_beta)
    with s Inl show ?thesis by (rule generate_failed)
  next
    case (Inr audios)
    show ?thesis
    proof (cases audios)
      case Nil
      with Inr have g: "gen rng = Inr []" by simp
      with s have "fst r = Inl IndexError"
        "events_since w (snd r) = pre rng @ [EvLogInfo, EvRaise IndexError]"
        "seq_cfg (snd r) = cfg" "net (snd r) = n" "ext (snd r) = x0"
        unfolding r_def gen_def n_def cfg_def pre_def fm_def x0_def
        by (simp_all add: text_to_audio_def events_since_def Let_def case_prod_beta)
      with s g show ?thesis by (rule empty_batch)
    next
      case (Cons a as)
      with Inr have g: "gen rng = Inr (a # as)" by simp
      show ?thesis
      proof (cases "mkdir c x1 (output_dir w) True True")
        case (Inl e)
        with s g have "fst r = Inl e"
          "events_since w (snd r) =
             pre rng @ [EvLogInfo, EvNow t, EvMkdir (output_dir w) True True, EvRaise e]"
          "seq_cfg (snd r) = cfg" "net (snd r) = n" "ext (snd r) = x1"
          unfolding r_def gen_def n_def cfg_def pre_def fm_def x1_def x0_def t_def
          by (simp_all add: text_to_audio_def events_since_def Let_def case_prod_beta
                timestamp_and_mkdir_ext)
        with s g Inl show ?thesis by (rule mkdir_failed)
      next
        case (Inr x2)
        note m = this
        show ?thesis
        proof (cases "torchaudio_save c x2 p [float_cpu c a] rate")
          case (Inl e)
          with s g m have "fst r = Inl e"
            "events_since w (snd r) =
               pre rng @ [EvLogInfo, EvNow t, EvMkdir (output_dir w) True True,
                          EvSave p [float_cpu c a] rate, EvRaise e]"
            "seq_cfg (snd r) = cfg" "net (snd r) = n" "ext (snd r) = x2"
            unfolding r_def gen_def n_def cfg_def pre_def fm_def x1_def x0_def t_def p_def
              rate_def
            by (simp_all add: text_to_audio_def events_since_def Let_def case_prod_beta
                  timestamp_and_mkdir_ext)
          with s g m Inl show ?thesis by (rule save_failed)
        next
          case (Inr x3)
          with s g m have "fst r = Inr p"
            "events_since w (snd r) =
               pre rng @ [EvLogInfo, EvNow t, EvMkdir (output_dir w) True True,
                          EvSave p [float_cpu c a] rate]"
            "seq_cfg (snd r) = cfg" "net (snd r) = n" "ext (snd r) = x3"
            unfolding r_def gen_def n_def cfg_def pre_def fm_def x1_def x0_def t_def p_def
              rate_def
            by (simp_all add: text_to_audio_def events_since_def Let_def case_prod_beta
                  timestamp_and_mkdir_ext)
          with s g m Inr show ?thesis by (rule saved)
        qed
      qed
    qed
  qed
qed

lemma video_to_audio_outcomes:
  fixes c :: "('t, 'f, 'm, 'r, 'x) collab" and w :: "('t, 'f, 'm, 'r, 'x) world"
    and video prompt negative_prompt :: string and seed num_steps' :: int
    and cfg_strength duration' :: 'f
  defines "r \<equiv> video_to_audio c w video prompt negative_prompt seed num_steps' cfg_strength
                  duration'"
  defines "x0 \<equiv> seeded_ext c w seed"
  defines "cfg \<equiv> \<lambda>vi :: ('t, 'f) video_info. (seq_cfg w)\<lparr>duration := duration_sec vi\<rparr>"
  defines "n \<equiv> \<lambda>vi. update_seq_lengths (net w)
                 (latent_seq_len c (cfg vi)) (clip_seq_len c (cfg vi)) (sync_seq_len c (cfg vi))"
  defines "fm \<equiv> \<lparr>min_sigma = 0, inference_mode = ''euler'', num_steps = num_steps'\<rparr>"
  defines "clip \<equiv> \<lambda>vi :: ('t, 'f) video_info. Some [to_device c (clip_frames vi)]"
  defines "sync \<equiv> \<lambda>vi :: ('t, 'f) video_info. Some [to_device c (sync_frames vi)]"
  defines "pre0 \<equiv> [if 0 \<le> seed then EvManualSeed seed else EvSeed,
                    EvLoadVideo video duration']"
  defines "pre \<equiv> \<lambda>rng vi. pre0 @
                  [EvSetDuration (duration_sec vi),
                   EvUpdateSeqLengths (latent_seq_len c (cfg vi)) (clip_seq_len c (cfg vi))
                     (sync_seq_len c (cfg vi)),
                   EvGenerate (clip vi) (sync vi) [prompt] [negative_prompt] (feature_utils w)
                     (n vi) fm rng cfg_strength (cfg vi)]"
  defines "gen \<equiv> \<lambda>rng vi. generate c (clip vi) (sync vi) [prompt] [negative_prompt]
                    (feature_utils w) (n vi) fm rng cfg_strength"
  defines "t \<equiv> fst (now c x0)"
  defines "x1 \<equiv> snd (now c x0)"
  defines "p \<equiv> output_dir w @ [strftime_Ymd_HMS t @ ''.mp4'']"
  defines "rate \<equiv> sampling_rate (seq_cfg w)"
  obtains
    (seed_failed) e where "seeded_rng c w seed = Inl e" "0 \<le> seed" "fst r = Inl e"
      "events_since w (snd r) = [EvManualSeed seed, EvRaise e]"
      "seq_cfg (snd r) = seq_cfg w" "net (snd r) = net w" "ext (snd r) = ext w"
  | (load_failed) rng e where "seeded_rng c w seed = Inr rng"
      "load_video c x0 video duration' = Inl e" "fst r = Inl e"
      "events_since w (snd r) = pre0 @ [EvRaise e]"
      "seq_cfg (snd r) = seq_cfg w" "net (snd r) = net w" "ext (snd r) = x0"
  | (generate_failed) rng vi e where "seeded_rng c w seed = Inr rng"
      "load_video c x0 video duration' = Inr vi"
      "gen rng vi = Inl e" "fst r = Inl e"
      "events_since w (snd r) = pre rng vi @ [EvRaise e]"
      "seq_cfg (snd r) = cfg vi" "net (snd r) = n vi" "ext (snd r) = x0"
  | (empty_batch) rng vi where "seeded_rng c w seed = Inr rng"
      "load_video c x0 video duration' = Inr vi"
      "gen rng vi = Inr []" "fst r = Inl IndexError"
      "events_since w (snd r) = pre rng vi @ [EvLogInfo, EvRaise IndexError]"
      "seq_cfg (snd r) = cfg vi" "net (snd r) = n vi" "ext (snd r) = x0"
  | (mkdir_failed) rng vi a as e where "seeded_rng c w seed = Inr rng"
      "load_video c x0 video duration' = Inr vi"
      "gen rng vi = Inr (a # as)"
      "mkdir c x1 (output_dir w) True True = Inl e" "fst r = Inl e"
      "events_since w (snd r) =
         pre rng vi @ [EvLogInfo, EvNow t, EvMkdir (output_dir w) True True, EvRaise e]"
      "seq_cfg (snd r) = cfg vi" "net (snd r) = n vi" "ext (snd r) = x1"
  | (write_failed) rng vi a as x2 e where "seeded_rng c w seed = Inr rng"
      "load_video c x0 video duration' = Inr vi"
      "gen rng vi = Inr (a # as)"
      "mkdir c x1 (output_dir w) True True = Inr x2"
      "make_video c x2 vi p (float_cpu c a) rate = Inl e" "fst r = Inl e"
      "events_since w (snd r) =
         pre rng vi @ [EvLogInfo, EvNow t, EvMkdir (output_dir w) True True,
                       EvMakeVideo vi p (float_cpu c a) rate, EvRaise e]"
      "seq_cfg (snd r) = cfg vi" "net (snd r) = n vi" "ext (snd r) = x2"
  | (written) rng vi a as x2 x3 where "seeded_rng c w seed = Inr rng"
      "load_video c x0 video duration' = Inr vi"
      "gen rng vi = Inr (a # as)"
      "mkdir c x1 (output_dir w) True True = Inr x2"
      "make_video c x2 vi p (float_cpu c a) rate = Inr x3" "fst r = Inr p"
      "events_since w (snd r) =
         pre rng vi @ [EvLogInfo, EvNow t, EvMkdir (output_dir w) True True,
                       EvMakeVideo vi p (float_cpu c a) rate]"
      "seq_cfg (snd r) = cfg vi" "net (snd r) = n vi" "ext (snd r) = x3"
proof (cases "seeded_rng c w seed")
  case (Inl e)
  note s = this
  from s have "0 \<le> seed" by (rule seeded_rng_failed)
  with s have "0 \<le> seed" "fst r = Inl e"
    "events_since w (snd r) = [EvManualSeed seed, EvRaise e]"
    "seq_cfg (snd r) = seq_cfg w" "net (snd r) = net w" "ext (snd r) = ext w"
    unfolding r_def
    by (simp_all add: video_to_audio_def events_since_def Let_def case_prod_beta
          seeded_ext_failed)
  with s show ?thesis by (rule seed_failed)
next
  case (Inr rng)
  note s = this
  show ?thesis
  proof (cases "load_video c x0 video duration'")
    case (Inl e)
    with s have "fst r = Inl e" "events_since w (snd r) = pre0 @ [EvRaise e]"
      "seq_cfg (snd r) = seq_cfg w" "net (snd r) = net w" "ext (snd r) = x0"
      unfolding r_def pre0_def x0_def
      by (simp_all add: video_to_audio_def events_since_def Let_def case_prod_beta)
    with s Inl show ?thesis by (rule load_failed)
  next
    case (Inr vi)
    note l = this
    show ?thesis
    proof (cases "gen rng vi")
      case (Inl e)
      with s l have "fst r = Inl e" "events_since w (snd r) = pre rng vi @ [EvRaise e]"
        "seq_cfg (snd r) = cfg vi" "net (snd r) = n vi" "ext (snd r) = x0"
        unfolding r_def gen_def n_def cfg_def pre_def pre0_def fm_def x0_def clip_def sync_def
        by (simp_all add: video_to_audio_def events_since_def Let_def case_prod_beta)
      with s l Inl show ?thesis by (rule generate_failed)
    next
      case (Inr audios)
      show ?thesis
      proof (cases audios)
        case Nil
        with Inr have g: "gen rng vi = Inr []" by simp
        with s l have "fst r = Inl IndexError"
          "events_since w (snd r) = pre rng vi @ [EvLogInfo, EvRaise IndexError]"
          "seq_cfg (snd r) = cfg vi" "net (snd r) = n vi" "ext (snd r) = x0"
          unfolding r_def gen_def n_def cfg_def pre_def pre0_def fm_def x0_def clip_def
            sync_def
          by (simp_all add: video_to_audio_def events_since_def Let_def case_prod_beta)
        with s l g show ?thesis by (rule empty_batch)
      next
        case (Cons a as)
        with Inr have g: "gen rng vi = Inr (a # as)" by simp
        show ?thesis
        proof (cases "mkdir c x1 (output_dir w) True True")
          case (Inl e)
          with s l g have "fst r = Inl e"
            "events_since w (snd r) =
               pre rng vi @ [EvLogInfo, EvNow t, EvMkdir (output_dir w) True True, EvRaise e]"
            "seq_cfg (snd r) = cfg vi" "net (snd r) = n vi" "ext (snd r) = x1"
            unfolding r_def gen_def n_def cfg_def pre_def pre0_def fm_def x1_def x0_def
              t_def clip_def sync_def
            by (simp_all add: video_to_audio_def events_since_def Let_def case_prod_beta
                  timestamp_and_mkdir_ext)
          with s l g Inl show ?thesis by (rule mkdir_failed)
        next
          case (Inr x2)
          note m = this
          show ?thesis
          proof (cases "make_video c x2 vi p (float_cpu c a) rate")
            case (Inl e)
            with s l g m have "fst r = Inl e"
              "events_since w (snd r) =
                 pre rng vi @ [EvLogInfo, EvNow t, EvMkdir (output_dir w) True True,
                               EvMakeVideo vi p (float_cpu c a) rate, EvRaise e]"
              "seq_cfg (snd r) = cfg vi" "net (snd r) = n vi" "ext (snd r) = x2"
              unfolding r_def gen_def n_def cfg_def pre_def pre0_def fm_def x1_def x0_def
                t_def p_def rate_def clip_def sync_def
              by (simp_all add: video_to_audio_def events_since_def Let_def case_prod_beta
                    timestamp_and_mkdir_ext)
            with s l g m Inl show ?thesis by (rule write_failed)
          next
            case (Inr x3)
            with s l g m have "fst r = Inr p"
              "events_since w (snd r) =
                 pre rng vi @ [EvLogInfo, EvNow t, EvMkdir (output_dir w) True True,
                               EvMakeVideo vi p (float_cpu c a) rate]"
              "seq_cfg (snd r) = cfg vi" "net (snd r) = n vi" "ext (snd r) = x3"
              unfolding r_def gen_def n_def cfg_def pre_def pre0_def fm_def x1_def x0_def
                t_def p_def rate_def clip_def sync_def
              by (simp_all add: video_to_audio_def events_since_def Let_def case_prod_beta
                    timestamp_and_mkdir_ext)
            with s l g m Inr show ?thesis by (rule written)
          qed
        qed
      qed
    qed
  qed
qed

subsection \<open>What a request leaves of the shared state\<close>

lemma text_to_audio_frame:
  fixes c :: "('t, 'f, 'm, 'r, 'x) collab" and w :: "('t, 'f, 'm, 'r, 'x) world"
    and prompt negative_prompt :: string and seed num_steps' :: int
    and cfg_strength duration' :: 'f
  defines "t \<equiv> snd (text_to_audio c w prompt negative_prompt seed num_steps' cfg_strength
                       duration')"
  shows "model t = model w" "feature_utils t = feature_utils w" "output_dir t = output_dir w"
    "weights (net t) = weights (net w)"
    "seq_cfg t = (seq_cfg w)\<lparr>duration := duration (seq_cfg t)\<rparr>"
    "net t = update_seq_lengths (net w) (latent_len (net t)) (clip_len (net t))
               (sync_len (net t))"
    "sampling_rate (seq_cfg t) = sampling_rate (seq_cfg w)"
  unfolding t_def
  by (simp_all add: text_to_audio_def update_seq_lengths_def Let_def case_prod_beta
        split: sum.split list.split)

lemma video_to_audio_frame:
  fixes c :: "('t, 'f, 'm, 'r, 'x) collab" and w :: "('t, 'f, 'm, 'r, 'x) world"
    and video prompt negative_prompt :: string and seed num_steps' :: int
    and cfg_strength duration' :: 'f
  defines "v \<equiv> snd (video_to_audio c w video prompt negative_prompt seed num_steps'
                       cfg_strength duration')"
  shows "model v = model w" "feature_utils v = feature_utils w" "output_dir v = output_dir w"
    "weights (net v) = weights (net w)"
    "seq_cfg v = (seq_cfg w)\<lparr>duration := duration (seq_cfg v)\<rparr>"
    "net v = update_seq_lengths (net w) (latent_len (net v)) (clip_len (net v))
               (sync_len (net v))"
    "sampling_rate (seq_cfg v) = sampling_rate (seq_cfg w)"
  unfolding v_def
  by (simp_all add: video_to_audio_def update_seq_lengths_def Let_def case_prod_beta
        split: sum.split list.split)


subsection \<open>Requests that succeed, and the call of generate\<close>

lemma same_model_seq_cfg:
  "same_model w1 w2 \<Longrightarrow> (seq_cfg w1)\<lparr>duration := d\<rparr> = (seq_cfg w2)\<lparr>duration := d\<rparr>"
  by (cases "seq_cfg w1"; cases "seq_cfg w2") (simp add: same_model_def)

lemma same_model_net:
  "same_model w1 w2 \<Longrightarrow> update_seq_lengths (net w1) l cl sl = update_seq_lengths (net w2) l cl sl"
  by (cases "net w1"; cases "net w2") (simp add: same_model_def update_seq_lengths_def)

lemma text_to_audio_generate_call:
  fixes c :: "('t, 'f, 'm, 'r, 'x) collab" and w :: "('t, 'f, 'm, 'r, 'x) world"
    and prompt negative_prompt :: string and seed num_steps' :: int
    and cfg_strength duration' :: 'f
  defines "r \<equiv> text_to_audio c w prompt negative_prompt seed num_steps' cfg_strength duration'"
  defines "cfg \<equiv> (seq_cfg w)\<lparr>duration := duration'\<rparr>"
  shows "filter is_generate (events_since w (snd r)) =
           (case seeded_rng c w seed of
              Inl e \<Rightarrow> []
            | Inr rng \<Rightarrow>
                [EvGenerate None None [prompt] [negative_prompt] (feature_utils w)
                   (update_seq_lengths (net w)
                      (latent_seq_len c cfg) (clip_seq_len c cfg) (sync_seq_len c cfg))
                   \<lparr>min_sigma = 0, inference_mode = ''euler'', num_steps = num_steps'\<rparr>
                   rng cfg_strength cfg])"
  unfolding r_def cfg_def
  by (cases rule: text_to_audio_outcomes [where c = c and w = w
        and prompt = prompt and negative_prompt = negative_prompt and seed = seed
        and num_steps' = num_steps' and cfg_strength = cfg_strength and duration' = duration'])
     simp_all

lemma video_to_audio_generate_call:
  fixes c :: "('t, 'f, 'm, 'r, 'x) collab" and w :: "('t, 'f, 'm, 'r, 'x) world"
    and video prompt negative_prompt :: string and seed num_steps' :: int
    and cfg_strength duration' :: 'f
  defines "r \<equiv> video_to_audio c w video prompt negative_prompt seed num_steps' cfg_strength
                  duration'"
  defines "cfg \<equiv> \<lambda>vi :: ('t, 'f) video_info. (seq_cfg w)\<lparr>duration := duration_sec vi\<rparr>"
  shows "filter is_generate (events_since w (snd r)) =
           (case seeded_rng c w seed of
              Inl e \<Rightarrow> []
            | Inr rng \<Rightarrow>
               (case load_video c (seeded_ext c w seed) video duration' of
                  Inl e \<Rightarrow> []
                | Inr vi \<Rightarrow>
                    [EvGenerate (Some [to_device c (clip_frames vi)])
                       (Some [to_device c (sync_frames vi)]) [prompt] [negative_prompt]
                       (feature_utils w)
                       (update_seq_lengths (net w) (latent_seq_len c (cfg vi))
                          (clip_seq_len c (cfg vi)) (sync_seq_len c (cfg vi)))
                       \<lparr>min_sigma = 0, inference_mode = ''euler'', num_steps = num_steps'\<rparr>
                       rng cfg_strength (cfg vi)]))"
  unfolding r_def cfg_def
  by (cases rule: video_to_audio_outcomes [where c = c and w = w and video = video
        and prompt = prompt and negative_prompt = negative_prompt and seed = seed
        and num_steps' = num_steps' and cfg_strength = cfg_strength and duration' = duration'])
     simp_all

lemma generate_results_filter:
  "generate_results c (filter is_generate evs) = generate_results c evs"
  by (induction evs rule: generate_results.induct) simp_all


lemma text_to_audio_success:
  fixes c :: "('t, 'f, 'm, 'r, 'x) collab" and w :: "('t, 'f, 'm, 'r, 'x) world"
    and prompt negative_prompt :: string and seed num_steps' :: int
    and cfg_strength duration' :: 'f
  defines "r \<equiv> text_to_audio c w prompt negative_prompt seed num_steps' cfg_strength duration'"
  defines "cfg \<equiv> (seq_cfg w)\<lparr>duration := duration'\<rparr>"
  assumes ok: "fst r = Inr path"
  shows "\<exists>rng a as.
    seeded_rng c w seed = Inr rng
    \<and> generate c None None [prompt] [negative_prompt] (feature_utils w)
       (update_seq_lengths (net w)
          (latent_seq_len c cfg) (clip_seq_len c cfg) (sync_seq_len c cfg))
       \<lparr>min_sigma = 0, inference_mode = ''euler'', num_steps = num_steps'\<rparr>
       rng cfg_strength = Inr (a # as)
    \<and> written_audio (events_since w (snd r)) = [float_cpu c a]"
  using ok unfolding r_def cfg_def
  by (cases rule: text_to_audio_outcomes [where c = c and w = w
        and prompt = prompt and negative_prompt = negative_prompt and seed = seed
        and num_steps' = num_steps' and cfg_strength = cfg_strength and duration' = duration'])
     simp_all

lemma video_to_audio_success:
  fixes c :: "('t, 'f, 'm, 'r, 'x) collab" and w :: "('t, 'f, 'm, 'r, 'x) world"
    and video prompt negative_prompt :: string and seed num_steps' :: int
    and cfg_strength duration' :: 'f
  defines "r \<equiv> video_to_audio c w video prompt negative_prompt seed num_steps' cfg_strength
                  duration'"
  defines "cfg \<equiv> \<lambda>vi :: ('t, 'f) video_info. (seq_cfg w)\<lparr>duration := duration_sec vi\<rparr>"
  assumes ok: "fst r = Inr path"
  shows "\<exists>rng vi a as.
    seeded_rng c w seed = Inr rng
    \<and> load_video c (seeded_ext c w seed) video duration' = Inr vi
    \<and> generate c (Some [to_device c (clip_frames vi)]) (Some [to_device c (sync_frames vi)])
       [prompt] [negative_prompt] (feature_utils w)
       (update_seq_lengths (net w) (latent_seq_len c (cfg vi))
          (clip_seq_len c (cfg vi)) (sync_seq_len c (cfg vi)))
       \<lparr>min_sigma = 0, inference_mode = ''euler'', num_steps = num_steps'\<rparr>
       rng cfg_strength = Inr (a # as)
    \<and> written_audio (events_since w (snd r)) = [float_cpu c a]"
  using ok unfolding r_def cfg_def
  by (cases rule: video_to_audio_outcomes [where c = c and w = w and video = video
        and prompt = prompt and negative_prompt = negative_prompt and seed = seed
        and num_steps' = num_steps' and cfg_strength = cfg_strength and duration' = duration'])
     simp_all



subsection \<open>Runs on the concrete collaborators\<close>

lemma demo:
  "Generator demo_collab = 0"
  "manual_seed demo_collab rng seed =
     (if seed < 2 ^ 64 then Inr seed else Inl (Raised ''RuntimeError''))"
  "rng_seed demo_collab rng x = (1000 + int (draws x), x\<lparr>draws := Suc (draws x)\<rparr>)"
  "load_video demo_collab x video d =
     (if video = ''clip.mp4''
      then Inr \<lparr>clip_frames = 1, sync_frames = 2, duration_sec = min d 3\<rparr>
      else Inl (Raised ''DecodeError''))"
  "to_device demo_collab a = a"
  "latent_seq_len demo_collab cfg = \<lfloor>duration cfg\<rfloor> * 43"
  "clip_seq_len demo_collab cfg = \<lfloor>duration cfg\<rfloor> * 8"
  "sync_seq_len demo_collab cfg = \<lfloor>duration cfg\<rfloor> * 24"
  "generate demo_collab cf sf txt neg fu n fm rng g =
     (if txt = [''oom''] then Inl (Raised ''OutOfMemory'')
      else Inr (map (\<lambda>_. rng + latent_len n) txt))"
  "float_cpu demo_collab a = a"
  "now demo_collab x = (demo_time, x)"
  "mkdir demo_collab x p exist_ok parents =
     (if p \<in> set (dirs x)
      then (if exist_ok then Inr x else Inl (Raised ''FileExistsError''))
      else if read_only x then Inl (Raised ''PermissionError'')
      else Inr (x\<lparr>dirs := p # dirs x\<rparr>))"
  "make_video demo_collab x vi p a rate =
     (if read_only x then Inl (Raised ''PermissionError'')
      else Inr (x\<lparr>files := p # files x\<rparr>))"
  "torchaudio_save demo_collab x p audios rate =
     (if read_only x then Inl (Raised ''PermissionError'')
      else Inr (x\<lparr>files := p # files x\<rparr>))"
  by (simp_all add: demo_collab_def)

lemma demo_world_fields:
  "net demo_world = \<lparr>weights = 7, latent_len = 0, clip_len = 0, sync_len = 0\<rparr>"
  "feature_utils demo_world = 9"
  "seq_cfg demo_world = \<lparr>duration = 8, sampling_rate = 44100\<rparr>"
  "output_dir demo_world = [''output'', ''gradio'']"
  "ext demo_world = \<lparr>draws = 0, dirs = [], files = [], read_only = False\<rparr>"
  "trace demo_world = []"
  by (simp_all add: demo_world_def output_dir_init_def)

lemma demo_seeded:
  "seeded_rng demo_collab w seed =
     (if 0 \<le> seed then (if seed < 2 ^ 64 then Inr seed else Inl (Raised ''RuntimeError''))
      else Inr (1000 + int (draws (ext w))))"
  "seeded_ext demo_collab w seed =
     (if 0 \<le> seed then ext w else (ext w)\<lparr>draws := Suc (draws (ext w))\<rparr>)"
  by (simp_all add: seeded_rng_def seeded_ext_def demo)

lemma demo_text_run:
  fixes w :: "(int, real, nat, int, outside) world"
    and prompt negative_prompt :: string and seed num_steps' rng :: int
    and cfg_strength duration' :: real
  defines "r \<equiv> text_to_audio demo_collab w prompt negative_prompt seed num_steps'
                  cfg_strength duration'"
  assumes p: "prompt \<noteq> ''oom''" and rw: "\<not> read_only (ext w)"
    and s: "seeded_rng demo_collab w seed = Inr rng"
  shows "fst r = Inr (output_dir w @ [''20261104_070509.flac''])"
    and "written_audio (events_since w (snd r)) = [rng + \<lfloor>duration'\<rfloor> * 43]"
    and "generate_rngs (events_since w (snd r)) = [rng]"
    and "draws (ext (snd r)) = draws (seeded_ext demo_collab w seed)"
    and "read_only (ext (snd r)) = read_only (ext w)"
proof -
  have x: "read_only (seeded_ext demo_collab w seed) = read_only (ext w)"
    by (simp add: demo_seeded)
  show "fst r = Inr (output_dir w @ [''20261104_070509.flac''])"
    and "written_audio (events_since w (snd r)) = [rng + \<lfloor>duration'\<rfloor> * 43]"
    and "generate_rngs (events_since w (snd r)) = [rng]"
    and "draws (ext (snd r)) = draws (seeded_ext demo_collab w seed)"
    and "read_only (ext (snd r)) = read_only (ext w)"
    using p rw s x unfolding r_def
    by (simp_all add: text_to_audio_def events_since_def Let_def case_prod_beta demo
          demo_timestamp update_seq_lengths_def timestamp_and_mkdir_ext)
qed

lemma demo_video_run:
  fixes w :: "(int, real, nat, int, outside) world"
    and prompt negative_prompt :: string and seed num_steps' rng :: int
    and cfg_strength duration' :: real
  defines "r \<equiv> video_to_audio demo_collab w ''clip.mp4'' prompt negative_prompt seed
                  num_steps' cfg_strength duration'"
  assumes p: "prompt \<noteq> ''oom''" and rw: "\<not> read_only (ext w)"
    and s: "seeded_rng demo_collab w seed = Inr rng"
  shows "fst r = Inr (output_dir w @ [''20261104_070509.mp4''])"
    and "written_audio (events_since w (snd r)) = [rng + \<lfloor>min duration' 3\<rfloor> * 43]"
proof -
  have x: "read_only (seeded_ext demo_collab w seed) = read_only (ext w)"
    by (simp add: demo_seeded)
  show "fst r = Inr (output_dir w @ [''20261104_070509.mp4''])"
    and "written_audio (events_since w (snd r)) = [rng + \<lfloor>min duration' 3\<rfloor> * 43]"
    using p rw s x unfolding r_def
    by (simp_all add: video_to_audio_def events_since_def Let_def case_prod_beta demo
          demo_timestamp update_seq_lengths_def timestamp_and_mkdir_ext)
qed

section \<open>The claims\<close>

text \<open>
  C3. In every request of either handler, \<open>generate\<close> is called only after the duration
  of the shared sequence configuration has been set to the resolved duration of the
  request and the three sequence lengths read from it have been pushed into the
  network. When the seeding and, for a video, the decoder return, the steps of the
  request that concern the sequence configuration are, in this order, the assignment
  of the resolved duration, the push of the lengths computed from it, and the one call
  of \<open>generate\<close>, which finds the shared configuration holding that duration and
  receives a network holding exactly these lengths; and these are the configuration
  and the network the request leaves. The lengths depend on the resolved duration and
  on nothing an earlier request left in the configuration or the network. The
  resolved duration is the decoder's for a video and the requested one for text. When
  \<open>manual_seed\<close> or the decoder raises, \<open>generate\<close> is not called and the configuration
  and the network stay as they were.
\<close>

theorem sequence_config_set_before_generate:
  fixes c :: "('t, 'f, 'm, 'r, 'x) collab" and w :: "('t, 'f, 'm, 'r, 'x) world"
    and video prompt negative_prompt :: string and seed num_steps' :: int
    and cfg_strength duration' :: 'f
  defines "v \<equiv> snd (video_to_audio c w video prompt negative_prompt seed num_steps'
                       cfg_strength duration')"
  defines "t \<equiv> snd (text_to_audio c w prompt negative_prompt seed num_steps' cfg_strength
                       duration')"
  defines "cfg \<equiv> \<lambda>d. (seq_cfg w)\<lparr>duration := d\<rparr>"
  defines "steps \<equiv> \<lambda>d.
             [SetDuration d,
              PushLengths (latent_seq_len c (cfg d)) (clip_seq_len c (cfg d))
                (sync_seq_len c (cfg d)),
              GenerateWith d (latent_seq_len c (cfg d)) (clip_seq_len c (cfg d))
                (sync_seq_len c (cfg d))]"
  defines "n \<equiv> \<lambda>d. update_seq_lengths (net w)
                 (latent_seq_len c (cfg d)) (clip_seq_len c (cfg d)) (sync_seq_len c (cfg d))"
  shows "(case seeded_rng c w seed of
            Inl e \<Rightarrow>
              seq_steps (events_since w v) = [] \<and> seq_cfg v = seq_cfg w \<and> net v = net w
          | Inr rng \<Rightarrow>
              (case load_video c (seeded_ext c w seed) video duration' of
                 Inl e \<Rightarrow>
                   seq_steps (events_since w v) = [] \<and> seq_cfg v = seq_cfg w \<and> net v = net w
               | Inr video_info \<Rightarrow>
                   seq_steps (events_since w v) = steps (duration_sec video_info)
                   \<and> seq_cfg v = cfg (duration_sec video_info)
                   \<and> net v = n (duration_sec video_info)))
       \<and> (case seeded_rng c w seed of
            Inl e \<Rightarrow>
              seq_steps (events_since w t) = [] \<and> seq_cfg t = seq_cfg w \<and> net t = net w
          | Inr rng \<Rightarrow>
              seq_steps (events_since w t) = steps duration' \<and> seq_cfg t = cfg duration'
              \<and> net t = n duration')"
proof
  show "case seeded_rng c w seed of
            Inl e \<Rightarrow>
              seq_steps (events_since w v) = [] \<and> seq_cfg v = seq_cfg w \<and> net v = net w
          | Inr rng \<Rightarrow>
              (case load_video c (seeded_ext c w seed) video duration' of
                 Inl e \<Rightarrow>
                   seq_steps (events_since w v) = [] \<and> seq_cfg v = seq_cfg w \<and> net v = net w
               | Inr video_info \<Rightarrow>
                   seq_steps (events_since w v) = steps (duration_sec video_info)
                   \<and> seq_cfg v = cfg (duration_sec video_info)
                   \<and> net v = n (duration_sec video_info))"
    unfolding v_def steps_def n_def cfg_def
    by (cases rule: video_to_audio_outcomes [where c = c and w = w and video = video
          and prompt = prompt and negative_prompt = negative_prompt and seed = seed
          and num_steps' = num_steps' and cfg_strength = cfg_strength and duration' = duration'])
       (simp_all add: update_seq_lengths_def)
  show "case seeded_rng c w seed of
            Inl e \<Rightarrow>
              seq_steps (events_since w t) = [] \<and> seq_cfg t = seq_cfg w \<and> net t = net w
          | Inr rng \<Rightarrow>
              seq_steps (events_since w t) = steps duration' \<and> seq_cfg t = cfg duration'
              \<and> net t = n duration'"
    unfolding t_def steps_def n_def cfg_def
    by (cases rule: text_to_audio_outcomes [where c = c and w = w
          and prompt = prompt and negative_prompt = negative_prompt and seed = seed
          and num_steps' = num_steps' and cfg_strength = cfg_strength and duration' = duration'])
       (simp_all add: update_seq_lengths_def)
qed

theorem sequence_config_set_before_generate_witness:
  "seq_steps (events_since demo_world (snd (video_to_audio demo_collab demo_world
        ''clip.mp4'' ''rain'' ''music'' 42 25 4.5 8))) =
       [SetDuration 3, PushLengths 129 24 72, GenerateWith 3 129 24 72]
   \<and> seq_cfg (snd (video_to_audio demo_collab demo_world ''clip.mp4'' ''rain'' ''music'' 42 25
        4.5 8)) = \<lparr>duration = 3, sampling_rate = 44100\<rparr>
   \<and> seq_steps (events_since demo_world (snd (text_to_audio demo_collab demo_world
        ''rain'' ''music'' 42 25 4.5 5))) =
       [SetDuration 5, PushLengths 215 40 120, GenerateWith 5 215 40 120]
   \<and> net (snd (text_to_audio demo_collab demo_world ''rain'' ''music'' 42 25 4.5 5)) =
       \<lparr>weights = 7, latent_len = 215, clip_len = 40, sync_len = 120\<rparr>
   \<and> seq_steps (events_since demo_world (snd (video_to_audio demo_collab demo_world
        ''missing.mp4'' ''rain'' ''music'' 42 25 4.5 5))) = []
   \<and> seq_steps (events_since demo_world (snd (text_to_audio demo_collab demo_world
        ''rain'' ''music'' (2 ^ 64) 25 4.5 5))) = []
   \<and> seq_cfg (snd (text_to_audio demo_collab demo_world ''rain'' ''music'' (2 ^ 64) 25 4.5 5))
       = \<lparr>duration = 8, sampling_rate = 44100\<rparr>"
proof -
  note sc = sequence_config_set_before_generate [where c = demo_collab and w = demo_world
      and prompt = "''rain''" and negative_prompt = "''music''" and num_steps' = 25
      and cfg_strength = "4.5"]
  note run = demo demo_seeded demo_world_fields update_seq_lengths_def
  from sc [where video = "''clip.mp4''" and seed = 42 and duration' = 8]
  have v: "seq_steps (events_since demo_world (snd (video_to_audio demo_collab demo_world
        ''clip.mp4'' ''rain'' ''music'' 42 25 4.5 8))) =
       [SetDuration 3, PushLengths 129 24 72, GenerateWith 3 129 24 72]"
    "seq_cfg (snd (video_to_audio demo_collab demo_world ''clip.mp4'' ''rain'' ''music'' 42 25
        4.5 8)) = \<lparr>duration = 3, sampling_rate = 44100\<rparr>"
    by (simp_all add: run)
  from sc [where video = "''missing.mp4''" and seed = 42 and duration' = 5]
  have t: "seq_steps (events_since demo_world (snd (text_to_audio demo_collab demo_world
        ''rain'' ''music'' 42 25 4.5 5))) =
       [SetDuration 5, PushLengths 215 40 120, GenerateWith 5 215 40 120]"
    "net (snd (text_to_audio demo_collab demo_world ''rain'' ''music'' 42 25 4.5 5)) =
       \<lparr>weights = 7, latent_len = 215, clip_len = 40, sync_len = 120\<rparr>"
    "seq_steps (events_since demo_world (snd (video_to_audio demo_collab demo_world
        ''missing.mp4'' ''rain'' ''music'' 42 25 4.5 5))) = []"
    by (simp_all add: run)
  from sc [where video = "''clip.mp4''" and seed = "2 ^ 64" and duration' = 5]
  have f: "seq_steps (events_since demo_world (snd (text_to_audio demo_collab demo_world
        ''rain'' ''music'' (2 ^ 64) 25 4.5 5))) = []"
    "seq_cfg (snd (text_to_audio demo_collab demo_world ''rain'' ''music'' (2 ^ 64) 25 4.5 5))
       = \<lparr>duration = 8, sampling_rate = 44100\<rparr>"
    by (simp_all add: run)
  from v t f show ?thesis by (intro conjI)
qed

text \<open>
  C4. In \<open>video_to_audio\<close>, when the seeding and the decoder return, the duration written
  into the sequence configuration, in force when \<open>generate\<close> is called and used for the
  lengths that \<open>generate\<close> receives is \<open>duration_sec\<close> of what the decoder returned,
  whatever duration was requested. The witness runs the handler on a video of three
  seconds with eight seconds requested: the duration used is three.
\<close>

theorem video_uses_decoded_duration:
  fixes c :: "('t, 'f, 'm, 'r, 'x) collab" and w :: "('t, 'f, 'm, 'r, 'x) world"
    and video prompt negative_prompt :: string and seed num_steps' :: int
    and cfg_strength duration' :: 'f and video_info :: "('t, 'f) video_info" and rng :: 'r
  defines "v \<equiv> snd (video_to_audio c w video prompt negative_prompt seed num_steps'
                       cfg_strength duration')"
  defines "cfg \<equiv> (seq_cfg w)\<lparr>duration := duration_sec video_info\<rparr>"
  assumes seeded: "seeded_rng c w seed = Inr rng"
    and decoded: "load_video c (seeded_ext c w seed) video duration' = Inr video_info"
  shows "seq_cfg v = cfg \<and> duration (seq_cfg v) = duration_sec video_info \<and>
         seq_steps (events_since w v) =
           [SetDuration (duration_sec video_info),
            PushLengths (latent_seq_len c cfg) (clip_seq_len c cfg) (sync_seq_len c cfg),
            GenerateWith (duration_sec video_info)
              (latent_seq_len c cfg) (clip_seq_len c cfg) (sync_seq_len c cfg)]"
  using seeded decoded unfolding v_def cfg_def
  by (cases rule: video_to_audio_outcomes [where c = c and w = w and video = video
        and prompt = prompt and negative_prompt = negative_prompt and seed = seed
        and num_steps' = num_steps' and cfg_strength = cfg_strength and duration' = duration'])
     (simp_all add: update_seq_lengths_def)

theorem video_uses_decoded_duration_witness:
  "seeded_rng demo_collab demo_world 42 = Inr 42
   \<and> load_video demo_collab (seeded_ext demo_collab demo_world 42) ''clip.mp4'' 8 =
       Inr \<lparr>clip_frames = 1, sync_frames = 2, duration_sec = 3\<rparr>
   \<and> duration (seq_cfg (snd (video_to_audio demo_collab demo_world ''clip.mp4'' ''rain''
        ''music'' 42 25 4.5 8))) = 3
   \<and> seq_steps (events_since demo_world (snd (video_to_audio demo_collab demo_world
        ''clip.mp4'' ''rain'' ''music'' 42 25 4.5 8))) =
       [SetDuration 3, PushLengths 129 24 72, GenerateWith 3 129 24 72]"
proof -
  have s: "seeded_rng demo_collab demo_world 42 = Inr 42"
    by (simp add: seeded_rng_def demo_collab_def)
  have d: "load_video demo_collab (seeded_ext demo_collab demo_world 42) ''clip.mp4'' 8 =
             Inr \<lparr>clip_frames = 1, sync_frames = 2, duration_sec = 3\<rparr>"
    by (simp add: demo_collab_def)
  show ?thesis
    using s d video_uses_decoded_duration [OF s d, where prompt = "''rain''"
        and negative_prompt = "''music''" and num_steps' = 25 and cfg_strength = "4.5"]
    by (simp add: demo_collab_def demo_world_def)
qed

text \<open>
  C6. For every input, \<open>text_to_audio\<close> never calls the video decoder, and every call
  of \<open>generate\<close> it makes receives no clip frames and no sync frames. It makes one such
  call when the seeding returns, and none when \<open>manual_seed\<close> raises. The decoder has
  no part in the request at all: with any other decoder in its place the handler
  returns the same and leaves the same world.
\<close>

theorem text_to_audio_never_decodes_video:
  fixes c :: "('t, 'f, 'm, 'r, 'x) collab" and w :: "('t, 'f, 'm, 'r, 'x) world"
    and prompt negative_prompt :: string and seed num_steps' :: int
    and cfg_strength duration' :: 'f
  defines "t \<equiv> snd (text_to_audio c w prompt negative_prompt seed num_steps' cfg_strength
                       duration')"
  shows "filter is_load_video (events_since w t) = []
         \<and> list_all (\<lambda>frames. frames = (None, None)) (generate_frames (events_since w t))
         \<and> generate_frames (events_since w t) =
             (case seeded_rng c w seed of Inl e \<Rightarrow> [] | Inr rng \<Rightarrow> [(None, None)])
         \<and> (\<forall>decoder.
               text_to_audio (c\<lparr>load_video := decoder\<rparr>) w prompt negative_prompt seed
                 num_steps' cfg_strength duration' =
               text_to_audio c w prompt negative_prompt seed num_steps' cfg_strength duration')"
proof -
  have "filter is_load_video (events_since w t) = []
         \<and> list_all (\<lambda>frames. frames = (None, None)) (generate_frames (events_since w t))
         \<and> generate_frames (events_since w t) =
             (case seeded_rng c w seed of Inl e \<Rightarrow> [] | Inr rng \<Rightarrow> [(None, None)])"
    unfolding t_def
    by (cases rule: text_to_audio_outcomes [where c = c and w = w
          and prompt = prompt and negative_prompt = negative_prompt and seed = seed
          and num_steps' = num_steps' and cfg_strength = cfg_strength and duration' = duration'])
       simp_all
  moreover have "text_to_audio (c\<lparr>load_video := decoder\<rparr>) w prompt negative_prompt seed
                 num_steps' cfg_strength duration' =
               text_to_audio c w prompt negative_prompt seed num_steps' cfg_strength duration'"
    for decoder
  proof -
    let ?c = "c\<lparr>load_video := decoder\<rparr>"
    have stages: "request_rng ?c = request_rng c" "configure ?c = configure c"
      "run_generate ?c = run_generate c" "timestamp_and_mkdir ?c = timestamp_and_mkdir c"
      by (simp_all add: fun_eq_iff request_rng_def configure_def run_generate_def
            timestamp_and_mkdir_def Let_def split: sum.split prod.split list.split)
    show ?thesis
      by (simp add: text_to_audio_def stages Let_def split: sum.split prod.split)
  qed
  ultimately show ?thesis by blast
qed

theorem text_to_audio_never_decodes_video_witness:
  "generate_frames (events_since demo_world
       (snd (text_to_audio demo_collab demo_world ''rain'' ''music'' 42 25 4.5 8))) =
     [(None, None)]
   \<and> generate_frames (events_since demo_world
       (snd (text_to_audio demo_collab demo_world ''rain'' ''music'' (2 ^ 64) 25 4.5 8))) = []
   \<and> filter is_load_video (events_since demo_world
       (snd (text_to_audio demo_collab demo_world ''rain'' ''music'' 42 25 4.5 8))) = []"
proof -
  note nd = text_to_audio_never_decodes_video [where c = demo_collab and w = demo_world
      and prompt = "''rain''" and negative_prompt = "''music''" and num_steps' = 25
      and cfg_strength = "4.5" and duration' = 8]
  from nd [where seed = 42]
  have a: "generate_frames (events_since demo_world
       (snd (text_to_audio demo_collab demo_world ''rain'' ''music'' 42 25 4.5 8))) =
     [(None, None)]"
    "filter is_load_video (events_since demo_world
       (snd (text_to_audio demo_collab demo_world ''rain'' ''music'' 42 25 4.5 8))) = []"
    by (simp_all add: demo_seeded)
  from nd [where seed = "2 ^ 64"]
  have b: "generate_frames (events_since demo_world
       (snd (text_to_audio demo_collab demo_world ''rain'' ''music'' (2 ^ 64) 25 4.5 8))) = []"
    by (simp add: demo_seeded)
  from a b show ?thesis by simp
qed

text \<open>
  C9. Spec-modelled in its part on the network: \<open>update_seq_lengths\<close> is modelled from
  the spec. Whatever the inputs and whether the request succeeds or fails, each
  handler leaves the model configuration, the weights of the network, the feature
  extractor and the output directory as they were; of the sequence configuration
  it changes at most the duration, and of the network at most the three sequence
  lengths.
\<close>

theorem request_mutates_only_sequence_config:
  fixes c :: "('t, 'f, 'm, 'r, 'x) collab" and w :: "('t, 'f, 'm, 'r, 'x) world"
    and video prompt negative_prompt :: string and seed num_steps' :: int
    and cfg_strength duration' :: 'f
  defines "v \<equiv> snd (video_to_audio c w video prompt negative_prompt seed num_steps'
                       cfg_strength duration')"
  defines "t \<equiv> snd (text_to_audio c w prompt negative_prompt seed num_steps' cfg_strength
                       duration')"
  shows "(model v = model w \<and> weights (net v) = weights (net w)
          \<and> feature_utils v = feature_utils w \<and> output_dir v = output_dir w
          \<and> seq_cfg v = (seq_cfg w)\<lparr>duration := duration (seq_cfg v)\<rparr>
          \<and> net v = update_seq_lengths (net w) (latent_len (net v)) (clip_len (net v))
                      (sync_len (net v)))
       \<and> (model t = model w \<and> weights (net t) = weights (net w)
          \<and> feature_utils t = feature_utils w \<and> output_dir t = output_dir w
          \<and> seq_cfg t = (seq_cfg w)\<lparr>duration := duration (seq_cfg t)\<rparr>
          \<and> net t = update_seq_lengths (net w) (latent_len (net t)) (clip_len (net t))
                      (sync_len (net t)))"
proof
  show "model v = model w \<and> weights (net v) = weights (net w)
          \<and> feature_utils v = feature_utils w \<and> output_dir v = output_dir w
          \<and> seq_cfg v = (seq_cfg w)\<lparr>duration := duration (seq_cfg v)\<rparr>
          \<and> net v = update_seq_lengths (net w) (latent_len (net v)) (clip_len (net v))
                      (sync_len (net v))"
    unfolding v_def
    using video_to_audio_frame [of c w video prompt negative_prompt seed num_steps'
      cfg_strength duration']
    by blast
  show "model t = model w \<and> weights (net t) = weights (net w)
          \<and> feature_utils t = feature_utils w \<and> output_dir t = output_dir w
          \<and> seq_cfg t = (seq_cfg w)\<lparr>duration := duration (seq_cfg t)\<rparr>
          \<and> net t = update_seq_lengths (net w) (latent_len (net t)) (clip_len (net t))
                      (sync_len (net t))"
    unfolding t_def
    using text_to_audio_frame [of c w prompt negative_prompt seed num_steps'
      cfg_strength duration']
    by blast
qed

text \<open>
  C10. In every call of \<open>text_to_audio\<close> that gets past the seeding, the requested
  duration is the duration of the generation, unchanged: it is written into the shared
  sequence configuration as it was received, with no test on it and no adjustment, the
  lengths pushed into the network are the ones computed from the configuration holding
  it, and \<open>generate\<close> is called with that duration in force and a network with these
  lengths. A call in which \<open>manual_seed\<close> raises ends before the configuration is
  touched.
\<close>

theorem text_to_audio_uses_requested_duration:
  fixes c :: "('t, 'f, 'm, 'r, 'x) collab" and w :: "('t, 'f, 'm, 'r, 'x) world"
    and prompt negative_prompt :: string and seed num_steps' :: int
    and cfg_strength duration' :: 'f
  defines "t \<equiv> snd (text_to_audio c w prompt negative_prompt seed num_steps' cfg_strength
                       duration')"
  defines "cfg \<equiv> (seq_cfg w)\<lparr>duration := duration'\<rparr>"
  shows "(case seeded_rng c w seed of
            Inl e \<Rightarrow> seq_cfg t = seq_cfg w \<and> seq_steps (events_since w t) = []
          | Inr rng \<Rightarrow>
              seq_cfg t = cfg \<and> duration (seq_cfg t) = duration' \<and>
              seq_steps (events_since w t) =
                [SetDuration duration',
                 PushLengths (latent_seq_len c cfg) (clip_seq_len c cfg) (sync_seq_len c cfg),
                 GenerateWith duration'
                   (latent_seq_len c cfg) (clip_seq_len c cfg) (sync_seq_len c cfg)])"
  unfolding t_def cfg_def
  by (cases rule: text_to_audio_outcomes [where c = c and w = w
        and prompt = prompt and negative_prompt = negative_prompt and seed = seed
        and num_steps' = num_steps' and cfg_strength = cfg_strength and duration' = duration'])
     (simp_all add: update_seq_lengths_def)

theorem text_to_audio_uses_requested_duration_witness:
  "seq_cfg (snd (text_to_audio demo_collab demo_world ''rain'' ''music'' 42 25 4.5 5)) =
     \<lparr>duration = 5, sampling_rate = 44100\<rparr>
   \<and> seq_steps (events_since demo_world
        (snd (text_to_audio demo_collab demo_world ''rain'' ''music'' 42 25 4.5 5))) =
       [SetDuration 5, PushLengths 215 40 120, GenerateWith 5 215 40 120]
   \<and> seq_cfg (snd (text_to_audio demo_collab demo_world ''rain'' ''music'' (2 ^ 64) 25 4.5 5))
       = \<lparr>duration = 8, sampling_rate = 44100\<rparr>
   \<and> seq_steps (events_since demo_world
        (snd (text_to_audio demo_collab demo_world ''rain'' ''music'' (2 ^ 64) 25 4.5 5))) = []"
proof -
  note rd = text_to_audio_uses_requested_duration [where c = demo_collab and w = demo_world
      and prompt = "''rain''" and negative_prompt = "''music''" and num_steps' = 25
      and cfg_strength = "4.5" and duration' = 5]
  note run = demo demo_seeded demo_world_fields
  from rd [where seed = 42]
  have a: "seq_cfg (snd (text_to_audio demo_collab demo_world ''rain'' ''music'' 42 25 4.5 5)) =
     \<lparr>duration = 5, sampling_rate = 44100\<rparr>"
    "seq_steps (events_since demo_world
        (snd (text_to_audio demo_collab demo_world ''rain'' ''music'' 42 25 4.5 5))) =
       [SetDuration 5, PushLengths 215 40 120, GenerateWith 5 215 40 120]"
    by (simp_all add: run)
  from rd [where seed = "2 ^ 64"]
  have b: "seq_cfg (snd (text_to_audio demo_collab demo_world ''rain'' ''music'' (2 ^ 64) 25 4.5
       5)) = \<lparr>duration = 8, sampling_rate = 44100\<rparr>"
    "seq_steps (events_since demo_world
        (snd (text_to_audio demo_collab demo_world ''rain'' ''music'' (2 ^ 64) 25 4.5 5))) = []"
    by (simp_all add: run)
  from a b show ?thesis by (intro conjI)
qed

text \<open>
  C7. Spec-modelled in its last part: \<open>generate\<close> is not in this file, and that it
  returns one waveform for each prompt is its contract in the spec. In both handlers
  \<open>generate\<close> is called once when the seeding and, for a video, the decoder return, and
  not at all when \<open>manual_seed\<close> or the decoder raises. The call has: the clip and sync
  frames as batches of one, or none for text; the prompt and the negative prompt each
  as a singleton list; the shared feature extractor and the network holding the
  lengths of this request; the sampler built with \<open>min_sigma = 0\<close>, \<open>inference_mode =
  euler\<close> and the requested number of steps; the generator made for this request, seeded
  with \<open>manual_seed seed\<close> or from entropy; and the requested guidance strength. Under the
  contract of \<open>generate\<close> its output is a batch of one waveform, and a request that
  succeeds writes the waveform at index 0 of that batch.
\<close>

theorem generate_call_shape:
  fixes c :: "('t, 'f, 'm, 'r, 'x) collab" and w :: "('t, 'f, 'm, 'r, 'x) world"
    and video prompt negative_prompt :: string and seed num_steps' :: int
    and cfg_strength duration' :: 'f
  defines "v \<equiv> video_to_audio c w video prompt negative_prompt seed num_steps' cfg_strength
                  duration'"
  defines "t \<equiv> text_to_audio c w prompt negative_prompt seed num_steps' cfg_strength duration'"
  defines "fm \<equiv> \<lparr>min_sigma = 0, inference_mode = ''euler'', num_steps = num_steps'\<rparr>"
  defines "seeding \<equiv> if 0 \<le> seed then manual_seed c (Generator c) seed
                      else Inr (fst (rng_seed c (Generator c) (ext w)))"
  defines "x0 \<equiv> if 0 \<le> seed then ext w else snd (rng_seed c (Generator c) (ext w))"
  defines "cfg \<equiv> \<lambda>d. (seq_cfg w)\<lparr>duration := d\<rparr>"
  defines "n \<equiv> \<lambda>d. update_seq_lengths (net w)
                  (latent_seq_len c (cfg d)) (clip_seq_len c (cfg d)) (sync_seq_len c (cfg d))"
  shows "filter is_generate (events_since w (snd v)) =
           (case seeding of
              Inl e \<Rightarrow> []
            | Inr rng \<Rightarrow>
               (case load_video c x0 video duration' of
                  Inl e \<Rightarrow> []
                | Inr vi \<Rightarrow>
                    [EvGenerate (Some [to_device c (clip_frames vi)])
                       (Some [to_device c (sync_frames vi)]) [prompt] [negative_prompt]
                       (feature_utils w) (n (duration_sec vi)) fm rng cfg_strength
                       (cfg (duration_sec vi))]))
       \<and> filter is_generate (events_since w (snd t)) =
           (case seeding of
              Inl e \<Rightarrow> []
            | Inr rng \<Rightarrow>
                [EvGenerate None None [prompt] [negative_prompt] (feature_utils w) (n duration')
                   fm rng cfg_strength (cfg duration')])
       \<and> (one_waveform_per_prompt c \<longrightarrow>
            list_all one_waveform (generate_results c (events_since w (snd v)))
            \<and> list_all one_waveform (generate_results c (events_since w (snd t))))
       \<and> (\<forall>p. fst v = Inr p \<longrightarrow>
            (\<exists>a as. generate_results c (events_since w (snd v)) = [Inr (a # as)]
               \<and> written_audio (events_since w (snd v)) = [float_cpu c a]))
       \<and> (\<forall>p. fst t = Inr p \<longrightarrow>
            (\<exists>a as. generate_results c (events_since w (snd t)) = [Inr (a # as)]
               \<and> written_audio (events_since w (snd t)) = [float_cpu c a]))"
proof -
  have seeding: "seeding = seeded_rng c w seed" and x0: "x0 = seeded_ext c w seed"
    by (simp_all add: seeding_def x0_def seeded_rng_def seeded_ext_def)
  have gv: "filter is_generate (events_since w (snd v)) =
           (case seeding of
              Inl e \<Rightarrow> []
            | Inr rng \<Rightarrow>
               (case load_video c x0 video duration' of
                  Inl e \<Rightarrow> []
                | Inr vi \<Rightarrow>
                    [EvGenerate (Some [to_device c (clip_frames vi)])
                       (Some [to_device c (sync_frames vi)]) [prompt] [negative_prompt]
                       (feature_utils w) (n (duration_sec vi)) fm rng cfg_strength
                       (cfg (duration_sec vi))]))"
    unfolding seeding x0 v_def n_def fm_def cfg_def by (rule video_to_audio_generate_call)
  have gt: "filter is_generate (events_since w (snd t)) =
           (case seeding of
              Inl e \<Rightarrow> []
            | Inr rng \<Rightarrow>
                [EvGenerate None None [prompt] [negative_prompt] (feature_utils w) (n duration')
                   fm rng cfg_strength (cfg duration')])"
    unfolding seeding t_def n_def fm_def cfg_def by (rule text_to_audio_generate_call)
  have one: "one_waveform (generate c cf sf [prompt] neg fu m f r g)"
    if "one_waveform_per_prompt c" for cf sf neg fu m f r g
    using that by (cases "generate c cf sf [prompt] neg fu m f r g")
      (auto simp: one_waveform_per_prompt_def)
  have rv: "generate_results c (events_since w (snd v)) =
              generate_results c (filter is_generate (events_since w (snd v)))"
    and rt: "generate_results c (events_since w (snd t)) =
              generate_results c (filter is_generate (events_since w (snd t)))"
    by (simp_all add: generate_results_filter)
  have contract: "one_waveform_per_prompt c \<longrightarrow>
            list_all one_waveform (generate_results c (events_since w (snd v)))
            \<and> list_all one_waveform (generate_results c (events_since w (snd t)))"
    unfolding rv rt gv gt by (simp add: one split: sum.split)
  have sv: "\<forall>p. fst v = Inr p \<longrightarrow>
            (\<exists>a as. generate_results c (events_since w (snd v)) = [Inr (a # as)]
               \<and> written_audio (events_since w (snd v)) = [float_cpu c a])"
  proof (intro allI impI)
    fix p assume "fst v = Inr p"
    from video_to_audio_success [OF this [unfolded v_def]]
    show "\<exists>a as. generate_results c (events_since w (snd v)) = [Inr (a # as)]
               \<and> written_audio (events_since w (snd v)) = [float_cpu c a]"
      unfolding rv gv unfolding seeding x0 v_def n_def fm_def cfg_def
      by auto
  qed
  have st: "\<forall>p. fst t = Inr p \<longrightarrow>
            (\<exists>a as. generate_results c (events_since w (snd t)) = [Inr (a # as)]
               \<and> written_audio (events_since w (snd t)) = [float_cpu c a])"
  proof (intro allI impI)
    fix p assume "fst t = Inr p"
    from text_to_audio_success [OF this [unfolded t_def]]
    show "\<exists>a as. generate_results c (events_since w (snd t)) = [Inr (a # as)]
               \<and> written_audio (events_since w (snd t)) = [float_cpu c a]"
      unfolding rt gt unfolding seeding t_def n_def fm_def cfg_def
      by auto
  qed
  from gv gt contract sv st show ?thesis by blast
qed

theorem generate_call_shape_witness:
  "one_waveform_per_prompt demo_collab
   \<and> fst (text_to_audio demo_collab demo_world ''rain'' ''music'' 42 25 4.5 8) =
       Inr [''output'', ''gradio'', ''20261104_070509.flac'']
   \<and> filter is_generate (events_since demo_world
        (snd (text_to_audio demo_collab demo_world ''rain'' ''music'' 42 25 4.5 8))) =
       [EvGenerate None None [''rain''] [''music''] 9
          \<lparr>weights = 7, latent_len = 344, clip_len = 64, sync_len = 192\<rparr>
          \<lparr>min_sigma = 0, inference_mode = ''euler'', num_steps = 25\<rparr> 42 4.5
          \<lparr>duration = 8, sampling_rate = 44100\<rparr>]
   \<and> generate_results demo_collab (events_since demo_world
        (snd (text_to_audio demo_collab demo_world ''rain'' ''music'' 42 25 4.5 8))) =
       [Inr [386]]
   \<and> list_all one_waveform (generate_results demo_collab (events_since demo_world
        (snd (text_to_audio demo_collab demo_world ''rain'' ''music'' 42 25 4.5 8))))
   \<and> written_audio (events_since demo_world
        (snd (text_to_audio demo_collab demo_world ''rain'' ''music'' 42 25 4.5 8))) = [386]
   \<and> fst (video_to_audio demo_collab demo_world ''clip.mp4'' ''rain'' ''music'' 42 25 4.5 8) =
       Inr [''output'', ''gradio'', ''20261104_070509.mp4'']
   \<and> filter is_generate (events_since demo_world
        (snd (video_to_audio demo_collab demo_world ''clip.mp4'' ''rain'' ''music'' 42 25 4.5
           8))) =
       [EvGenerate (Some [1]) (Some [2]) [''rain''] [''music''] 9
          \<lparr>weights = 7, latent_len = 129, clip_len = 24, sync_len = 72\<rparr>
          \<lparr>min_sigma = 0, inference_mode = ''euler'', num_steps = 25\<rparr> 42 4.5
          \<lparr>duration = 3, sampling_rate = 44100\<rparr>]
   \<and> written_audio (events_since demo_world
        (snd (video_to_audio demo_collab demo_world ''clip.mp4'' ''rain'' ''music'' 42 25 4.5
           8))) = [171]
   \<and> filter is_generate (events_since demo_world
        (snd (text_to_audio demo_collab demo_world ''rain'' ''music'' (2 ^ 64) 25 4.5 8))) = []"
proof -
  have contract: "one_waveform_per_prompt demo_collab"
    by (auto simp: one_waveform_per_prompt_def demo_collab_def split: if_splits)
  have okt: "fst (text_to_audio demo_collab demo_world ''rain'' ''music'' 42 25 4.5 8) =
              Inr [''output'', ''gradio'', ''20261104_070509.flac'']"
    using demo_text_run(1) [where w = demo_world and prompt = "''rain''" and seed = 42
        and rng = 42]
    by (simp add: demo_seeded demo_world_def output_dir_init_def)
  have okv: "fst (video_to_audio demo_collab demo_world ''clip.mp4'' ''rain'' ''music'' 42 25
               4.5 8) = Inr [''output'', ''gradio'', ''20261104_070509.mp4'']"
    using demo_video_run(1) [where w = demo_world and prompt = "''rain''" and seed = 42
        and rng = 42]
    by (simp add: demo_seeded demo_world_def output_dir_init_def)
  note shape = generate_call_shape [where c = demo_collab and w = demo_world
      and video = "''clip.mp4''" and prompt = "''rain''" and negative_prompt = "''music''"
      and seed = 42 and num_steps' = 25 and cfg_strength = "4.5" and duration' = 8]
  from shape have callt:
    "filter is_generate (events_since demo_world
        (snd (text_to_audio demo_collab demo_world ''rain'' ''music'' 42 25 4.5 8))) =
       [EvGenerate None None [''rain''] [''music''] 9
          \<lparr>weights = 7, latent_len = 344, clip_len = 64, sync_len = 192\<rparr>
          \<lparr>min_sigma = 0, inference_mode = ''euler'', num_steps = 25\<rparr> 42 4.5
          \<lparr>duration = 8, sampling_rate = 44100\<rparr>]"
    by (simp add: demo_collab_def demo_world_def update_seq_lengths_def)
  from shape have callv:
    "filter is_generate (events_since demo_world
        (snd (video_to_audio demo_collab demo_world ''clip.mp4'' ''rain'' ''music'' 42 25 4.5
           8))) =
       [EvGenerate (Some [1]) (Some [2]) [''rain''] [''music''] 9
          \<lparr>weights = 7, latent_len = 129, clip_len = 24, sync_len = 72\<rparr>
          \<lparr>min_sigma = 0, inference_mode = ''euler'', num_steps = 25\<rparr> 42 4.5
          \<lparr>duration = 3, sampling_rate = 44100\<rparr>]"
    by (simp add: demo_collab_def demo_world_def update_seq_lengths_def)
  from generate_call_shape [where c = demo_collab and w = demo_world
      and video = "''clip.mp4''" and prompt = "''rain''" and negative_prompt = "''music''"
      and seed = "2 ^ 64" and num_steps' = 25 and cfg_strength = "4.5" and duration' = 8]
  have none:
    "filter is_generate (events_since demo_world
        (snd (text_to_audio demo_collab demo_world ''rain'' ''music'' (2 ^ 64) 25 4.5 8))) = []"
    by (simp add: demo_collab_def)
  let ?E = "events_since demo_world
        (snd (text_to_audio demo_collab demo_world ''rain'' ''music'' 42 25 4.5 8))"
  have "generate_results demo_collab ?E = generate_results demo_collab (filter is_generate ?E)"
    by (simp add: generate_results_filter)
  also have "\<dots> = [Inr [386]]"
    unfolding callt by (simp add: demo_collab_def)
  finally have res: "generate_results demo_collab ?E = [Inr [386]]" .
  from shape contract have one: "list_all one_waveform (generate_results demo_collab ?E)"
    by blast
  have wt: "written_audio ?E = [386]"
    using demo_text_run(2) [where w = demo_world and prompt = "''rain''" and seed = 42
        and rng = 42 and duration' = 8]
    by (simp add: demo_seeded demo_world_def)
  have wv: "written_audio (events_since demo_world
        (snd (video_to_audio demo_collab demo_world ''clip.mp4'' ''rain'' ''music'' 42 25 4.5
           8))) = [171]"
    using demo_video_run(2) [where w = demo_world and prompt = "''rain''" and seed = 42
        and rng = 42 and duration' = 8]
    by (simp add: demo_seeded demo_world_def)
  from contract okt callt res one wt okv callv wv none show ?thesis by (intro conjI)
qed




text \<open>
  C8. Neither handler recovers from, retries after or hides a failure of a
  collaborator. Whenever a collaborator raises, at the arguments and in the outside
  state the handler calls it with, the handler returns that very exception and does
  nothing more: after an exception of \<open>manual_seed\<close> nothing else is called; after one of
  the decoder neither \<open>generate\<close> nor the file system is reached; after one of \<open>generate\<close>
  nothing is written; after one of \<open>mkdir\<close> no writer is called; and the outside state
  the request leaves is the one it had come to when the exception was raised. A
  request returns an error exactly when one exception was raised in it, and that
  exception is its last event.
\<close>

theorem failures_propagate:
  fixes c :: "('t, 'f, 'm, 'r, 'x) collab" and w :: "('t, 'f, 'm, 'r, 'x) world"
    and video prompt negative_prompt :: string and seed num_steps' :: int
    and cfg_strength duration' :: 'f
  defines "v \<equiv> video_to_audio c w video prompt negative_prompt seed num_steps' cfg_strength
                  duration'"
  defines "t \<equiv> text_to_audio c w prompt negative_prompt seed num_steps' cfg_strength duration'"
  defines "ev \<equiv> events_since w (snd v)"
  defines "et \<equiv> events_since w (snd t)"
  defines "seeding \<equiv> if 0 \<le> seed then manual_seed c (Generator c) seed
                      else Inr (fst (rng_seed c (Generator c) (ext w)))"
  defines "x0 \<equiv> if 0 \<le> seed then ext w else snd (rng_seed c (Generator c) (ext w))"
  defines "x1 \<equiv> snd (now c x0)"
  defines "stamp \<equiv> strftime_Ymd_HMS (fst (now c x0))"
  defines "rate \<equiv> sampling_rate (seq_cfg w)"
  defines "fm \<equiv> \<lparr>min_sigma = 0, inference_mode = ''euler'', num_steps = num_steps'\<rparr>"
  defines "cfg \<equiv> \<lambda>d. (seq_cfg w)\<lparr>duration := d\<rparr>"
  defines "n \<equiv> \<lambda>d. update_seq_lengths (net w)
                  (latent_seq_len c (cfg d)) (clip_seq_len c (cfg d)) (sync_seq_len c (cfg d))"
  defines "gen_video \<equiv> \<lambda>rng vi.
             generate c (Some [to_device c (clip_frames vi)])
               (Some [to_device c (sync_frames vi)]) [prompt] [negative_prompt]
               (feature_utils w) (n (duration_sec vi)) fm rng cfg_strength"
  defines "gen_text \<equiv> \<lambda>rng.
             generate c None None [prompt] [negative_prompt] (feature_utils w) (n duration')
               fm rng cfg_strength"
  shows "(\<forall>e. seeding = Inl e \<longrightarrow>
            fst v = Inl e \<and> ev = [EvManualSeed seed, EvRaise e] \<and> ext (snd v) = ext w
            \<and> fst t = Inl e \<and> et = [EvManualSeed seed, EvRaise e] \<and> ext (snd t) = ext w)
       \<and> (\<forall>rng e. seeding = Inr rng \<longrightarrow> load_video c x0 video duration' = Inl e \<longrightarrow>
            fst v = Inl e \<and> filter is_generate ev = [] \<and> filter is_fs ev = []
            \<and> ext (snd v) = x0)
       \<and> (\<forall>rng vi e. seeding = Inr rng \<longrightarrow> load_video c x0 video duration' = Inr vi \<longrightarrow>
            gen_video rng vi = Inl e \<longrightarrow>
            fst v = Inl e \<and> filter is_fs ev = [] \<and> ext (snd v) = x0)
       \<and> (\<forall>rng e. seeding = Inr rng \<longrightarrow> gen_text rng = Inl e \<longrightarrow>
            fst t = Inl e \<and> filter is_fs et = [] \<and> ext (snd t) = x0)
       \<and> (\<forall>rng vi a as e. seeding = Inr rng \<longrightarrow> load_video c x0 video duration' = Inr vi \<longrightarrow>
            gen_video rng vi = Inr (a # as) \<longrightarrow>
            mkdir c x1 (output_dir w) True True = Inl e \<longrightarrow>
            fst v = Inl e \<and> filter is_write ev = [] \<and> ext (snd v) = x1)
       \<and> (\<forall>rng a as e. seeding = Inr rng \<longrightarrow> gen_text rng = Inr (a # as) \<longrightarrow>
            mkdir c x1 (output_dir w) True True = Inl e \<longrightarrow>
            fst t = Inl e \<and> filter is_write et = [] \<and> ext (snd t) = x1)
       \<and> (\<forall>rng vi a as x2 e. seeding = Inr rng \<longrightarrow>
            load_video c x0 video duration' = Inr vi \<longrightarrow>
            gen_video rng vi = Inr (a # as) \<longrightarrow>
            mkdir c x1 (output_dir w) True True = Inr x2 \<longrightarrow>
            make_video c x2 vi (output_dir w @ [stamp @ ''.mp4'']) (float_cpu c a) rate = Inl e \<longrightarrow>
            fst v = Inl e \<and> ext (snd v) = x2)
       \<and> (\<forall>rng a as x2 e. seeding = Inr rng \<longrightarrow> gen_text rng = Inr (a # as) \<longrightarrow>
            mkdir c x1 (output_dir w) True True = Inr x2 \<longrightarrow>
            torchaudio_save c x2 (output_dir w @ [stamp @ ''.flac'']) [float_cpu c a] rate
              = Inl e \<longrightarrow>
            fst t = Inl e \<and> ext (snd t) = x2)
       \<and> (case fst v of Inl e \<Rightarrow> raised ev = [e] \<and> last ev = EvRaise e
                       | Inr p \<Rightarrow> raised ev = [])
       \<and> (case fst t of Inl e \<Rightarrow> raised et = [e] \<and> last et = EvRaise e
                       | Inr p \<Rightarrow> raised et = [])"
proof -
  have seeding: "seeding = seeded_rng c w seed" and x0: "x0 = seeded_ext c w seed"
    by (simp_all add: seeding_def x0_def seeded_rng_def seeded_ext_def)
  note vo = video_to_audio_outcomes [where c = c and w = w and video = video
      and prompt = prompt and negative_prompt = negative_prompt and seed = seed
      and num_steps' = num_steps' and cfg_strength = cfg_strength and duration' = duration']
  note to = text_to_audio_outcomes [where c = c and w = w
      and prompt = prompt and negative_prompt = negative_prompt and seed = seed
      and num_steps' = num_steps' and cfg_strength = cfg_strength and duration' = duration']
  note defs = seeding x0 x1_def stamp_def rate_def gen_video_def gen_text_def n_def fm_def
    cfg_def
  have 1: "\<forall>e. seeding = Inl e \<longrightarrow>
            fst v = Inl e \<and> ev = [EvManualSeed seed, EvRaise e] \<and> ext (snd v) = ext w
            \<and> fst t = Inl e \<and> et = [EvManualSeed seed, EvRaise e] \<and> ext (snd t) = ext w"
  proof -
    have "\<forall>e. seeding = Inl e \<longrightarrow>
            fst v = Inl e \<and> ev = [EvManualSeed seed, EvRaise e] \<and> ext (snd v) = ext w"
      unfolding v_def ev_def defs by (cases rule: vo) simp_all
    moreover have "\<forall>e. seeding = Inl e \<longrightarrow>
            fst t = Inl e \<and> et = [EvManualSeed seed, EvRaise e] \<and> ext (snd t) = ext w"
      unfolding t_def et_def defs by (cases rule: to) simp_all
    ultimately show ?thesis by blast
  qed
  have 2: "\<forall>rng e. seeding = Inr rng \<longrightarrow> load_video c x0 video duration' = Inl e \<longrightarrow>
            fst v = Inl e \<and> filter is_generate ev = [] \<and> filter is_fs ev = []
            \<and> ext (snd v) = x0"
    unfolding v_def ev_def defs by (cases rule: vo) simp_all
  have 3: "\<forall>rng vi e. seeding = Inr rng \<longrightarrow> load_video c x0 video duration' = Inr vi \<longrightarrow>
            gen_video rng vi = Inl e \<longrightarrow>
            fst v = Inl e \<and> filter is_fs ev = [] \<and> ext (snd v) = x0"
    unfolding v_def ev_def defs by (cases rule: vo) simp_all
  have 4: "\<forall>rng e. seeding = Inr rng \<longrightarrow> gen_text rng = Inl e \<longrightarrow>
            fst t = Inl e \<and> filter is_fs et = [] \<and> ext (snd t) = x0"
    unfolding t_def et_def defs by (cases rule: to) simp_all
  have 5: "\<forall>rng vi a as e. seeding = Inr rng \<longrightarrow> load_video c x0 video duration' = Inr vi \<longrightarrow>
            gen_video rng vi = Inr (a # as) \<longrightarrow>
            mkdir c x1 (output_dir w) True True = Inl e \<longrightarrow>
            fst v = Inl e \<and> filter is_write ev = [] \<and> ext (snd v) = x1"
    unfolding v_def ev_def defs by (cases rule: vo) simp_all
  have 6: "\<forall>rng a as e. seeding = Inr rng \<longrightarrow> gen_text rng = Inr (a # as) \<longrightarrow>
            mkdir c x1 (output_dir w) True True = Inl e \<longrightarrow>
            fst t = Inl e \<and> filter is_write et = [] \<and> ext (snd t) = x1"
    unfolding t_def et_def defs by (cases rule: to) simp_all
  have 7: "\<forall>rng vi a as x2 e. seeding = Inr rng \<longrightarrow>
            load_video c x0 video duration' = Inr vi \<longrightarrow>
            gen_video rng vi = Inr (a # as) \<longrightarrow>
            mkdir c x1 (output_dir w) True True = Inr x2 \<longrightarrow>
            make_video c x2 vi (output_dir w @ [stamp @ ''.mp4'']) (float_cpu c a) rate = Inl e \<longrightarrow>
            fst v = Inl e \<and> ext (snd v) = x2"
    unfolding v_def ev_def defs by (cases rule: vo) simp_all
  have 8: "\<forall>rng a as x2 e. seeding = Inr rng \<longrightarrow> gen_text rng = Inr (a # as) \<longrightarrow>
            mkdir c x1 (output_dir w) True True = Inr x2 \<longrightarrow>
            torchaudio_save c x2 (output_dir w @ [stamp @ ''.flac'']) [float_cpu c a] rate
              = Inl e \<longrightarrow>
            fst t = Inl e \<and> ext (snd t) = x2"
    unfolding t_def et_def defs by (cases rule: to) simp_all
  have 9: "case fst v of Inl e \<Rightarrow> raised ev = [e] \<and> last ev = EvRaise e
                       | Inr p \<Rightarrow> raised ev = []"
    unfolding v_def ev_def by (cases rule: vo) simp_all
  have 10: "case fst t of Inl e \<Rightarrow> raised et = [e] \<and> last et = EvRaise e
                       | Inr p \<Rightarrow> raised et = []"
    unfolding t_def et_def by (cases rule: to) simp_all
  from 1 2 3 4 5 6 7 8 9 10 show ?thesis by (intro conjI)
qed

theorem failures_propagate_witness:
  "manual_seed demo_collab (Generator demo_collab) (2 ^ 64) = Inl (Raised ''RuntimeError'')
   \<and> fst (video_to_audio demo_collab demo_world ''clip.mp4'' ''rain'' ''music'' (2 ^ 64) 25 4.5
        8) = Inl (Raised ''RuntimeError'')
   \<and> fst (text_to_audio demo_collab demo_world ''rain'' ''music'' (2 ^ 64) 25 4.5 8) =
       Inl (Raised ''RuntimeError'')
   \<and> events_since demo_world
        (snd (text_to_audio demo_collab demo_world ''rain'' ''music'' (2 ^ 64) 25 4.5 8)) =
       [EvManualSeed (2 ^ 64), EvRaise (Raised ''RuntimeError'')]
   \<and> load_video demo_collab (ext demo_world) ''missing.mp4'' 8 = Inl (Raised ''DecodeError'')
   \<and> fst (video_to_audio demo_collab demo_world ''missing.mp4'' ''rain'' ''music'' 42 25 4.5 8) =
       Inl (Raised ''DecodeError'')
   \<and> generate demo_collab (Some [1]) (Some [2]) [''oom''] [''music''] 9
        \<lparr>weights = 7, latent_len = 129, clip_len = 24, sync_len = 72\<rparr>
        \<lparr>min_sigma = 0, inference_mode = ''euler'', num_steps = 25\<rparr> 42 4.5 =
       Inl (Raised ''OutOfMemory'')
   \<and> fst (video_to_audio demo_collab demo_world ''clip.mp4'' ''oom'' ''music'' 42 25 4.5 8) =
       Inl (Raised ''OutOfMemory'')
   \<and> generate demo_collab None None [''oom''] [''music''] 9
        \<lparr>weights = 7, latent_len = 344, clip_len = 64, sync_len = 192\<rparr>
        \<lparr>min_sigma = 0, inference_mode = ''euler'', num_steps = 25\<rparr> 42 4.5 =
       Inl (Raised ''OutOfMemory'')
   \<and> fst (text_to_audio demo_collab demo_world ''oom'' ''music'' 42 25 4.5 8) =
       Inl (Raised ''OutOfMemory'')
   \<and> mkdir demo_collab (ext demo_world_locked) [''output'', ''gradio''] True True =
       Inl (Raised ''PermissionError'')
   \<and> fst (video_to_audio demo_collab demo_world_locked ''clip.mp4'' ''rain'' ''music'' 42 25 4.5
        8) = Inl (Raised ''PermissionError'')
   \<and> fst (text_to_audio demo_collab demo_world_locked ''rain'' ''music'' 42 25 4.5 8) =
       Inl (Raised ''PermissionError'')
   \<and> filter is_write (events_since demo_world_locked
        (snd (text_to_audio demo_collab demo_world_locked ''rain'' ''music'' 42 25 4.5 8))) = []
   \<and> mkdir demo_collab (ext demo_world_locked_dir) [''output'', ''gradio''] True True =
       Inr (ext demo_world_locked_dir)
   \<and> make_video demo_collab (ext demo_world_locked_dir)
        \<lparr>clip_frames = 1, sync_frames = 2, duration_sec = 3\<rparr>
        [''output'', ''gradio'', ''20261104_070509.mp4''] 171 44100 =
       Inl (Raised ''PermissionError'')
   \<and> fst (video_to_audio demo_collab demo_world_locked_dir ''clip.mp4'' ''rain'' ''music'' 42 25
        4.5 8) = Inl (Raised ''PermissionError'')
   \<and> torchaudio_save demo_collab (ext demo_world_locked_dir)
        [''output'', ''gradio'', ''20261104_070509.flac''] [386] 44100 =
       Inl (Raised ''PermissionError'')
   \<and> fst (text_to_audio demo_collab demo_world_locked_dir ''rain'' ''music'' 42 25 4.5 8) =
       Inl (Raised ''PermissionError'')
   \<and> ext (snd (text_to_audio demo_collab demo_world_locked_dir ''rain'' ''music'' 42 25 4.5 8)) =
       ext demo_world_locked_dir"
proof -
  note worlds = demo_world_def demo_world_locked_def demo_world_locked_dir_def
    output_dir_init_def
  note run = demo worlds update_seq_lengths_def demo_timestamp
  note fp = failures_propagate [where c = demo_collab and num_steps' = 25
      and cfg_strength = "4.5" and duration' = 8 and negative_prompt = "''music''"]
  have h1: "manual_seed demo_collab (Generator demo_collab) (2 ^ 64) =
              Inl (Raised ''RuntimeError'')"
    by (simp add: demo)
  from fp [where w = demo_world and video = "''clip.mp4''" and prompt = "''rain''"
      and seed = "2 ^ 64"]
  have c1: "fst (video_to_audio demo_collab demo_world ''clip.mp4'' ''rain'' ''music'' (2 ^ 64)
              25 4.5 8) = Inl (Raised ''RuntimeError'')"
    "fst (text_to_audio demo_collab demo_world ''rain'' ''music'' (2 ^ 64) 25 4.5 8) =
       Inl (Raised ''RuntimeError'')"
    "events_since demo_world
        (snd (text_to_audio demo_collab demo_world ''rain'' ''music'' (2 ^ 64) 25 4.5 8)) =
       [EvManualSeed (2 ^ 64), EvRaise (Raised ''RuntimeError'')]"
    by (simp_all add: demo)
  have h2: "load_video demo_collab (ext demo_world) ''missing.mp4'' 8 =
              Inl (Raised ''DecodeError'')"
    by (simp add: demo)
  from fp [where w = demo_world and video = "''missing.mp4''" and prompt = "''rain''"
      and seed = 42]
  have c2: "fst (video_to_audio demo_collab demo_world ''missing.mp4'' ''rain'' ''music'' 42 25
              4.5 8) = Inl (Raised ''DecodeError'')"
    by (simp add: demo)
  have h3: "generate demo_collab (Some [1]) (Some [2]) [''oom''] [''music''] 9
        \<lparr>weights = 7, latent_len = 129, clip_len = 24, sync_len = 72\<rparr>
        \<lparr>min_sigma = 0, inference_mode = ''euler'', num_steps = 25\<rparr> 42 4.5 =
       Inl (Raised ''OutOfMemory'')"
    "generate demo_collab None None [''oom''] [''music''] 9
        \<lparr>weights = 7, latent_len = 344, clip_len = 64, sync_len = 192\<rparr>
        \<lparr>min_sigma = 0, inference_mode = ''euler'', num_steps = 25\<rparr> 42 4.5 =
       Inl (Raised ''OutOfMemory'')"
    by (simp_all add: demo)
  from fp [where w = demo_world and video = "''clip.mp4''" and prompt = "''oom''"
      and seed = 42]
  have c3: "fst (video_to_audio demo_collab demo_world ''clip.mp4'' ''oom'' ''music'' 42 25 4.5
              8) = Inl (Raised ''OutOfMemory'')"
    "fst (text_to_audio demo_collab demo_world ''oom'' ''music'' 42 25 4.5 8) =
       Inl (Raised ''OutOfMemory'')"
    by (simp_all add: run)
  have h4: "mkdir demo_collab (ext demo_world_locked) [''output'', ''gradio''] True True =
              Inl (Raised ''PermissionError'')"
    by (simp add: run)
  from fp [where w = demo_world_locked and video = "''clip.mp4''" and prompt = "''rain''"
      and seed = 42]
  have c4: "fst (video_to_audio demo_collab demo_world_locked ''clip.mp4'' ''rain'' ''music'' 42
              25 4.5 8) = Inl (Raised ''PermissionError'')"
    "fst (text_to_audio demo_collab demo_world_locked ''rain'' ''music'' 42 25 4.5 8) =
       Inl (Raised ''PermissionError'')"
    "filter is_write (events_since demo_world_locked
        (snd (text_to_audio demo_collab demo_world_locked ''rain'' ''music'' 42 25 4.5 8))) = []"
    by (simp_all add: run)
  have h5: "mkdir demo_collab (ext demo_world_locked_dir) [''output'', ''gradio''] True True =
              Inr (ext demo_world_locked_dir)"
    "make_video demo_collab (ext demo_world_locked_dir)
        \<lparr>clip_frames = 1, sync_frames = 2, duration_sec = 3\<rparr>
        [''output'', ''gradio'', ''20261104_070509.mp4''] 171 44100 =
       Inl (Raised ''PermissionError'')"
    "torchaudio_save demo_collab (ext demo_world_locked_dir)
        [''output'', ''gradio'', ''20261104_070509.flac''] [386] 44100 =
       Inl (Raised ''PermissionError'')"
    by (simp_all add: run)
  from fp [where w = demo_world_locked_dir and video = "''clip.mp4''" and prompt = "''rain''"
      and seed = 42]
  have c5: "fst (video_to_audio demo_collab demo_world_locked_dir ''clip.mp4'' ''rain''
              ''music'' 42 25 4.5 8) = Inl (Raised ''PermissionError'')"
    "fst (text_to_audio demo_collab demo_world_locked_dir ''rain'' ''music'' 42 25 4.5 8) =
       Inl (Raised ''PermissionError'')"
    "ext (snd (text_to_audio demo_collab demo_world_locked_dir ''rain'' ''music'' 42 25 4.5 8)) =
       ext demo_world_locked_dir"
    by (simp_all add: run)
  from h1 c1 h2 c2 h3(1) c3(1) h3(2) c3(2) h4 c4 h5(1,2) c5(1) h5(3) c5(2,3)
  show ?thesis by (intro conjI)
qed

subsection \<open>Requests one after the other\<close>

lemma text_to_audio_same_model:
  "same_model w (snd (text_to_audio c w prompt negative_prompt seed num_steps' cfg_strength
     duration'))"
  by (simp add: same_model_def text_to_audio_frame(2,4,7))

lemma video_to_audio_same_model:
  "same_model w (snd (video_to_audio c w video prompt negative_prompt seed num_steps'
     cfg_strength duration'))"
  by (simp add: same_model_def video_to_audio_frame(2,4,7))

text \<open>
  C1. For a seed that is not negative, two requests with the same parameters, made in
  any two worlds that hold the same loaded model (and, for a video, in which the
  decoder returns the same for the video), call \<open>generate\<close> with the same arguments, the
  generator seeded by \<open>manual_seed seed\<close> among them; \<open>generate\<close> being a function of its
  arguments, its result is the same, and when both requests succeed the one waveform
  each writes is the same. The outside state (entropy, clock, files) and what an
  earlier request left in the sequence configuration have no part in it. A request
  leaves the loaded model as it was, so this covers a request made again later; the
  witness makes the same request twice in a row.
\<close>

theorem seeded_requests_reproducible:
  fixes c :: "('t, 'f, 'm, 'r, 'x) collab" and w1 w2 :: "('t, 'f, 'm, 'r, 'x) world"
    and video prompt negative_prompt :: string and seed num_steps' :: int
    and cfg_strength duration' :: 'f
  defines "v1 \<equiv> video_to_audio c w1 video prompt negative_prompt seed num_steps' cfg_strength
                   duration'"
  defines "v2 \<equiv> video_to_audio c w2 video prompt negative_prompt seed num_steps' cfg_strength
                   duration'"
  defines "t1 \<equiv> text_to_audio c w1 prompt negative_prompt seed num_steps' cfg_strength
                   duration'"
  defines "t2 \<equiv> text_to_audio c w2 prompt negative_prompt seed num_steps' cfg_strength
                   duration'"
  assumes seed: "0 \<le> seed" and model: "same_model w1 w2"
  shows "(load_video c (ext w1) video duration' = load_video c (ext w2) video duration' \<longrightarrow>
            filter is_generate (events_since w1 (snd v1)) =
              filter is_generate (events_since w2 (snd v2))
            \<and> generate_results c (events_since w1 (snd v1)) =
                generate_results c (events_since w2 (snd v2))
            \<and> (\<forall>p1 p2. fst v1 = Inr p1 \<longrightarrow> fst v2 = Inr p2 \<longrightarrow>
                 written_audio (events_since w1 (snd v1)) =
                   written_audio (events_since w2 (snd v2))
                 \<and> length (written_audio (events_since w1 (snd v1))) = 1))
       \<and> filter is_generate (events_since w1 (snd t1)) =
           filter is_generate (events_since w2 (snd t2))
       \<and> generate_results c (events_since w1 (snd t1)) =
           generate_results c (events_since w2 (snd t2))
       \<and> (\<forall>p1 p2. fst t1 = Inr p1 \<longrightarrow> fst t2 = Inr p2 \<longrightarrow>
            written_audio (events_since w1 (snd t1)) = written_audio (events_since w2 (snd t2))
            \<and> length (written_audio (events_since w1 (snd t1))) = 1)"
proof -
  from seed have rng: "seeded_rng c w1 seed = seeded_rng c w2 seed"
    by (simp add: seeded_rng_def)
  from seed have x1: "seeded_ext c w1 seed = ext w1"
    and x2: "seeded_ext c w2 seed = ext w2"
    by (simp_all add: seeded_ext_def)
  from model have fu: "feature_utils w1 = feature_utils w2"
    by (simp add: same_model_def)
  note cfg = same_model_seq_cfg [OF model]
  note nt = same_model_net [OF model]
  have gt: "filter is_generate (events_since w1 (snd t1)) =
              filter is_generate (events_since w2 (snd t2))"
    unfolding t1_def t2_def
    by (simp add: text_to_audio_generate_call rng fu cfg nt split: sum.split)
  then have rt: "generate_results c (events_since w1 (snd t1)) =
                   generate_results c (events_since w2 (snd t2))"
    by (metis generate_results_filter)
  have wt: "written_audio (events_since w1 (snd t1)) = written_audio (events_since w2 (snd t2))
            \<and> length (written_audio (events_since w1 (snd t1))) = 1"
    if ok1: "fst t1 = Inr p1" and ok2: "fst t2 = Inr p2" for p1 p2
    using text_to_audio_success [OF ok1 [unfolded t1_def]]
      text_to_audio_success [OF ok2 [unfolded t2_def]]
    unfolding t1_def t2_def by (auto simp: rng fu cfg nt)
  have video: "filter is_generate (events_since w1 (snd v1)) =
              filter is_generate (events_since w2 (snd v2))
            \<and> generate_results c (events_since w1 (snd v1)) =
                generate_results c (events_since w2 (snd v2))
            \<and> (\<forall>p1 p2. fst v1 = Inr p1 \<longrightarrow> fst v2 = Inr p2 \<longrightarrow>
                 written_audio (events_since w1 (snd v1)) =
                   written_audio (events_since w2 (snd v2))
                 \<and> length (written_audio (events_since w1 (snd v1))) = 1)"
    if same: "load_video c (ext w1) video duration' = load_video c (ext w2) video duration'"
  proof -
    have gv: "filter is_generate (events_since w1 (snd v1)) =
              filter is_generate (events_since w2 (snd v2))"
      unfolding v1_def v2_def
      by (simp add: video_to_audio_generate_call rng fu cfg nt x1 x2 same split: sum.split)
    then have rv: "generate_results c (events_since w1 (snd v1)) =
                   generate_results c (events_since w2 (snd v2))"
      by (metis generate_results_filter)
    have wv: "written_audio (events_since w1 (snd v1)) =
                written_audio (events_since w2 (snd v2))
              \<and> length (written_audio (events_since w1 (snd v1))) = 1"
      if ok1: "fst v1 = Inr p1" and ok2: "fst v2 = Inr p2" for p1 p2
      using video_to_audio_success [OF ok1 [unfolded v1_def]]
        video_to_audio_success [OF ok2 [unfolded v2_def]] same
      unfolding v1_def v2_def by (auto simp: rng fu cfg nt x1 x2)
    from gv rv wv show ?thesis by blast
  qed
  from video gt rt wt show ?thesis by blast
qed

theorem seeded_requests_reproducible_witness:
  "(0::int) \<le> 42 \<and> same_model demo_world demo_world_seeded_after
   \<and> fst (text_to_audio demo_collab demo_world ''rain'' ''music'' 42 25 4.5 8) =
       Inr [''output'', ''gradio'', ''20261104_070509.flac'']
   \<and> fst (text_to_audio demo_collab demo_world_seeded_after ''rain'' ''music'' 42 25 4.5 8) =
       Inr [''output'', ''gradio'', ''20261104_070509.flac'']
   \<and> written_audio (events_since demo_world
       (snd (text_to_audio demo_collab demo_world ''rain'' ''music'' 42 25 4.5 8))) = [386]
   \<and> written_audio (events_since demo_world_seeded_after
       (snd (text_to_audio demo_collab demo_world_seeded_after ''rain'' ''music'' 42 25 4.5 8)))
       = [386]"
proof -
  have sm: "same_model demo_world demo_world_seeded_after"
    unfolding demo_world_seeded_after_def by (rule text_to_audio_same_model)
  have s1: "seeded_rng demo_collab demo_world 42 = Inr 42"
    and s2: "seeded_rng demo_collab demo_world_seeded_after 42 = Inr 42"
    by (simp_all add: demo_seeded)
  have rw1: "\<not> read_only (ext demo_world)"
    by (simp add: demo_world_def)
  have rw2: "\<not> read_only (ext demo_world_seeded_after)"
    unfolding demo_world_seeded_after_def
    using demo_text_run(5) [OF _ rw1 s1, of "''rain''"] rw1 by simp
  have od: "output_dir demo_world_seeded_after = [''output'', ''gradio'']"
    unfolding demo_world_seeded_after_def
    by (simp add: text_to_audio_frame(3) demo_world_def output_dir_init_def)
  have ok1: "fst (text_to_audio demo_collab demo_world ''rain'' ''music'' 42 25 4.5 8) =
       Inr [''output'', ''gradio'', ''20261104_070509.flac'']"
    using demo_text_run(1) [OF _ rw1 s1, of "''rain''"]
    by (simp add: demo_world_def output_dir_init_def)
  have ok2: "fst (text_to_audio demo_collab demo_world_seeded_after ''rain'' ''music'' 42 25 4.5
       8) = Inr [''output'', ''gradio'', ''20261104_070509.flac'']"
    using demo_text_run(1) [OF _ rw2 s2, of "''rain''"] by (simp add: od)
  have w1: "written_audio (events_since demo_world
       (snd (text_to_audio demo_collab demo_world ''rain'' ''music'' 42 25 4.5 8))) = [386]"
    using demo_text_run(2) [OF _ rw1 s1, of "''rain''" _ _ _ 8] by simp
  from seeded_requests_reproducible [where c = demo_collab and ?w1.0 = demo_world
      and ?w2.0 = demo_world_seeded_after and video = "''clip.mp4''" and prompt = "''rain''"
      and negative_prompt = "''music''" and seed = 42 and num_steps' = 25
      and cfg_strength = "4.5" and duration' = 8, OF _ sm] ok1 ok2
  have "written_audio (events_since demo_world
       (snd (text_to_audio demo_collab demo_world ''rain'' ''music'' 42 25 4.5 8))) =
     written_audio (events_since demo_world_seeded_after
       (snd (text_to_audio demo_collab demo_world_seeded_after ''rain'' ''music'' 42 25 4.5 8)))"
    by simp
  with w1 have w2: "written_audio (events_since demo_world_seeded_after
       (snd (text_to_audio demo_collab demo_world_seeded_after ''rain'' ''music'' 42 25 4.5 8)))
       = [386]"
    by simp
  from sm ok1 ok2 w1 w2 show ?thesis by simp
qed




end
